theory Spec2Isabelle
  imports Main "HOL-Library.AList"
begin

section \<open>Configuration values\<close>

text \<open>
  A parsed configuration file is a JavaScript object whose values are scalars (null,
  booleans, numbers, strings), arrays and nested objects. Objects are association lists in
  insertion order. Numbers are carried around opaquely by the loader, so integers stand
  for them. Strings are lists of 8-bit characters.

  \<open>JArrX\<close> stands for an array whose contents are not tracked here. Parsed files never
  contain one; it is there for the arrays that lodash's merge can leave where it merges
  an object into an array, or an array into an object that has a numeric \<open>length\<close>:
  such an array may carry named properties, holes or undefined elements.
\<close>

datatype jv =
    JNull
  | JBool bool
  | JNum int
  | JStr string
  | JArr "jv list"
  | JObj "(string \<times> jv) list"
  | JArrX

type_synonym obj = "(string \<times> jv) list"


fun isScalar :: "jv \<Rightarrow> bool" where
  "isScalar JNull = True"
| "isScalar (JBool b) = True"
| "isScalar (JNum n) = True"
| "isScalar (JStr s) = True"
| "isScalar v = False"

text \<open>
  The value at a dotted key \<open>a.b.c\<close>, given as the list of its keys and followed through
  nested objects only; \<open>objectAt\<close> is the object found there, the tree itself for the
  empty list.
\<close>

fun lookupPath :: "obj \<Rightarrow> string list \<Rightarrow> jv option" where
  "lookupPath config [] = None"
| "lookupPath config [key] = map_of config key"
| "lookupPath config (key # rest) =
     (case map_of config key of Some (JObj inner) \<Rightarrow> lookupPath inner rest | _ \<Rightarrow> None)"


text \<open>A thrown JavaScript error, given by its message; a log line of the \<open>Logger\<close>.\<close>

datatype err = Error (message: string)

datatype log_level = LogDebug | LogWarn | LogError

type_synonym logs = "(log_level \<times> string) list"

section \<open>lodash merge\<close>

text \<open>
  The loader merges with \<open>merge({}, mergedConfig, fileConfig)\<close> of lodash 4.17, a library
  outside the repository; the functions below follow its \<open>baseMerge\<close>, \<open>baseMergeDeep\<close>
  and \<open>assignMergeValue\<close> on the values above. \<open>merge\<close> merges each source in turn
  into the destination with \<open>baseMerge\<close>, which walks the keys of the source.
  \<open>mergeValue\<close> is what it leaves at one key, given the value the destination holds there
  (if any) and the value of the source:

  \<^item> a source value that is not an object (a scalar, null included) is assigned over
    whatever the destination holds;

  \<^item> a source object is merged key by key into the destination's object, or into a fresh
    \<open>{}\<close> when the destination holds a scalar or nothing;

  \<^item> a source array is merged index by index (\<open>baseMergeArray\<close>) into the destination's
    array, or into a fresh \<open>[]\<close> when the destination holds a scalar, nothing, or an
    object without a numeric \<open>length\<close>;

  \<^item> a source object that meets a destination array is merged into that array, which
    stays an array: the empty object leaves it as it is;

  \<^item> a source value under the key \<open>__proto__\<close> that is an object or an array is skipped
    (\<open>safeGet\<close> reads it as undefined). The other guard of \<open>safeGet\<close>, for the key
    \<open>constructor\<close>, applies to function values only, which no configuration value is.

  An assigned key keeps its place in the destination, a new key goes last.

  Not determined here, and taken from the parameter \<open>irregular\<close> instead: what lodash
  arrives at when it merges a non-empty object into an array (the keys become indices or
  named properties of the array, and an assignment to \<open>length\<close> may throw a
  \<open>RangeError\<close>), an array into an object with a numeric \<open>length\<close> (the object is first
  copied into an array of that length), or anything into or from a \<open>JArrX\<close>. The
  parameter answers with the value left at the key, or with the error thrown. Also left
  out: the place JavaScript gives to integer-like keys among the keys of an object.
\<close>

fun isObject :: "jv \<Rightarrow> bool" where
  "isObject (JArr xs) = True"
| "isObject (JObj ps) = True"
| "isObject JArrX = True"
| "isObject v = False"

definition isArrayLike :: "obj \<Rightarrow> bool" where
  "isArrayLike ps = (case map_of ps ''length'' of
      Some (JNum n) \<Rightarrow> 0 \<le> n \<and> n \<le> 9007199254740991
    | _ \<Rightarrow> False)"

function mergeValue :: "(jv \<Rightarrow> jv \<Rightarrow> err + jv) \<Rightarrow> jv option \<Rightarrow> jv \<Rightarrow> err + jv"
  and baseMerge :: "(jv \<Rightarrow> jv \<Rightarrow> err + jv) \<Rightarrow> obj \<Rightarrow> obj \<Rightarrow> err + obj"
  and baseMergeArray :: "(jv \<Rightarrow> jv \<Rightarrow> err + jv) \<Rightarrow> jv list \<Rightarrow> jv list \<Rightarrow> err + jv list"
where
  "mergeValue irregular objValue JNull = Inr JNull"
| "mergeValue irregular objValue (JBool b) = Inr (JBool b)"
| "mergeValue irregular objValue (JNum n) = Inr (JNum n)"
| "mergeValue irregular objValue (JStr s) = Inr (JStr s)"
| "mergeValue irregular objValue JArrX =
     (case objValue of
        Some (JArr xs) \<Rightarrow> irregular (JArr xs) JArrX
      | Some JArrX \<Rightarrow> irregular JArrX JArrX
      | Some (JObj ps) \<Rightarrow> if isArrayLike ps then irregular (JObj ps) JArrX else Inr JArrX
      | _ \<Rightarrow> Inr JArrX)"
| "mergeValue irregular objValue (JArr ys) =
     (case objValue of
        Some (JArr xs) \<Rightarrow> map_sum id JArr (baseMergeArray irregular xs ys)
      | Some JArrX \<Rightarrow> irregular JArrX (JArr ys)
      | Some (JObj ps) \<Rightarrow>
          if isArrayLike ps then irregular (JObj ps) (JArr ys)
          else map_sum id JArr (baseMergeArray irregular [] ys)
      | _ \<Rightarrow> map_sum id JArr (baseMergeArray irregular [] ys))"
| "mergeValue irregular objValue (JObj qs) =
     (case objValue of
        Some (JObj ps) \<Rightarrow> map_sum id JObj (baseMerge irregular ps qs)
      | Some (JArr xs) \<Rightarrow> if qs = [] then Inr (JArr xs) else irregular (JArr xs) (JObj qs)
      | Some JArrX \<Rightarrow> if qs = [] then Inr JArrX else irregular JArrX (JObj qs)
      | _ \<Rightarrow> map_sum id JObj (baseMerge irregular [] qs))"
| "baseMerge irregular object [] = Inr object"
| "baseMerge irregular object ((key, srcValue) # source) =
     (if key = ''__proto__'' \<and> isObject srcValue then baseMerge irregular object source
      else (case mergeValue irregular (map_of object key) srcValue of
              Inl e \<Rightarrow> Inl e
            | Inr newValue \<Rightarrow> baseMerge irregular (AList.update key newValue object) source))"
| "baseMergeArray irregular xs [] = Inr xs"
| "baseMergeArray irregular [] (y # ys) =
     (case mergeValue irregular None y of
        Inl e \<Rightarrow> Inl e
      | Inr z \<Rightarrow> map_sum id ((#) z) (baseMergeArray irregular [] ys))"
| "baseMergeArray irregular (x # xs) (y # ys) =
     (case mergeValue irregular (Some x) y of
        Inl e \<Rightarrow> Inl e
      | Inr z \<Rightarrow> map_sum id ((#) z) (baseMergeArray irregular xs ys))"
  by pat_completeness auto
termination
  by (relation "measure (\<lambda>x. case x of
        Inl (irregular, objValue, srcValue) \<Rightarrow> size srcValue
      | Inr (Inl (irregular, object, source)) \<Rightarrow> size_list (size_prod (\<lambda>_. 0) size) source
      | Inr (Inr (irregular, xs, ys)) \<Rightarrow> size_list size ys)") auto

text \<open>\<open>merge(object, ...sources)\<close>: an error thrown while merging one source ends the call.\<close>

definition merge :: "(jv \<Rightarrow> jv \<Rightarrow> err + jv) \<Rightarrow> obj \<Rightarrow> obj list \<Rightarrow> err + obj" where
  "merge irregular object sources =
     foldl (\<lambda>acc source. case acc of Inl e \<Rightarrow> Inl e | Inr merged \<Rightarrow> baseMerge irregular merged source)
       (Inr object) sources"

section \<open>Format selection\<close>

datatype file_type = Yaml | Json

definition endsWith :: "string \<Rightarrow> string \<Rightarrow> bool" where
  "endsWith s searchString =
     (length searchString \<le> length s \<and> drop (length s - length searchString) s = searchString)"

text \<open>\<open>const {files, fileType = 'yaml'} = options\<close>: an absent option is \<open>'yaml'\<close>.\<close>

definition fileTypeOrDefault :: "file_type option \<Rightarrow> file_type" where
  "fileTypeOrDefault fileType = (case fileType of None \<Rightarrow> Yaml | Some t \<Rightarrow> t)"

text \<open>
  The condition of the \<open>if\<close> that chooses \<open>yaml.load\<close> over \<open>JSON.parse\<close>, and the
  parser it chooses for a file given the \<open>fileType\<close> option.
\<close>

definition parsedAsYaml :: "file_type \<Rightarrow> string \<Rightarrow> bool" where
  "parsedAsYaml fileType filename =
     (fileType = Yaml \<or> endsWith filename ''.yml'' \<or> endsWith filename ''.yaml'')"

definition chosenParser :: "file_type option \<Rightarrow> string \<Rightarrow> file_type" where
  "chosenParser fileType filename =
     (if parsedAsYaml (fileTypeOrDefault fileType) filename then Yaml else Json)"

section \<open>Regular expressions\<close>

text \<open>
  The providers recognise references with anchored regular expressions (\<open>^...$\<close>, no
  flags). A pattern is a function from the input left to read to the list of ways of
  matching a prefix of it, in the order a backtracking matcher tries them (greedy first):
  each way gives the substrings captured by the groups that took part and the input that
  remains. \<open>rxTest\<close> is \<open>RegExp.test\<close> and \<open>rxMatch\<close> is \<open>String.match\<close> for such an
  anchored pattern: the first way that consumes the whole input, with the whole input as
  element 0 of the result.
\<close>

type_synonym rx = "string \<Rightarrow> (string list \<times> string) list"

fun rxLit :: "string \<Rightarrow> rx" where
  "rxLit [] s = [([], s)]"
| "rxLit (c # cs) [] = []"
| "rxLit (c # cs) (x # xs) = (if c = x then rxLit cs xs else [])"

fun rxPlus :: "(char \<Rightarrow> bool) \<Rightarrow> rx" where
  "rxPlus p [] = []"
| "rxPlus p (x # xs) = (if p x then rxPlus p xs @ [([], xs)] else [])"

fun rxTimes :: "nat \<Rightarrow> (char \<Rightarrow> bool) \<Rightarrow> rx" where
  "rxTimes 0 p s = [([], s)]"
| "rxTimes (Suc n) p [] = []"
| "rxTimes (Suc n) p (x # xs) = (if p x then rxTimes n p xs else [])"

definition rxSeq :: "rx \<Rightarrow> rx \<Rightarrow> rx" where
  "rxSeq a b s =
     concat (map (\<lambda>m. map (\<lambda>m'. (fst m @ fst m', snd m')) (b (snd m))) (a s))"

definition rxAlt :: "rx \<Rightarrow> rx \<Rightarrow> rx" where
  "rxAlt a b s = a s @ b s"

definition rxOpt :: "rx \<Rightarrow> rx" where
  "rxOpt a s = a s @ [([], s)]"

definition rxGroup :: "rx \<Rightarrow> rx" where
  "rxGroup a s = map (\<lambda>m. (take (length s - length (snd m)) s # fst m, snd m)) (a s)"

definition fullMatches :: "rx \<Rightarrow> string \<Rightarrow> (string list \<times> string) list" where
  "fullMatches r s = filter (\<lambda>m. snd m = []) (r s)"

definition rxTest :: "rx \<Rightarrow> string \<Rightarrow> bool" where
  "rxTest r s = (fullMatches r s \<noteq> [])"

definition rxMatch :: "rx \<Rightarrow> string \<Rightarrow> string list option" where
  "rxMatch r s = (case fullMatches r s of [] \<Rightarrow> None | m # ms \<Rightarrow> Some (s # fst m))"

text \<open>Character classes.\<close>

definition lowerCase :: "char \<Rightarrow> bool" where
  "lowerCase c = (c \<in> set ''abcdefghijklmnopqrstuvwxyz'')"

definition upperCase :: "char \<Rightarrow> bool" where
  "upperCase c = (c \<in> set ''ABCDEFGHIJKLMNOPQRSTUVWXYZ'')"

definition digit :: "char \<Rightarrow> bool" where
  "digit c = (c \<in> set ''0123456789'')"

text \<open>\<open>\w\<close>, and \<open>\s\<close> within the 8-bit characters: tab, LF, VT, FF, CR, space, NBSP.\<close>

definition wordChar :: "char \<Rightarrow> bool" where
  "wordChar c = (lowerCase c \<or> upperCase c \<or> digit c \<or> c = CHR ''_'')"

definition spaceChar :: "char \<Rightarrow> bool" where
  "spaceChar c =
     (c \<in> {CHR 0x09, CHR 0x0A, CHR 0x0B, CHR 0x0C, CHR 0x0D, CHR '' '', CHR 0xA0})"

text \<open>\<open>.\<close> matches every character but a line terminator.\<close>

definition anyChar :: "char \<Rightarrow> bool" where
  "anyChar c = (c \<noteq> CHR 0x0A \<and> c \<noteq> CHR 0x0D)"

section \<open>Secret providers\<close>

text \<open>
  \<open>resolveSecret\<close> returns \<open>string | string[]\<close>; \<open>secretValue\<close> is the value stored in
  the tree.
\<close>

datatype secret = SecretText string | SecretArray "string list"

fun secretValue :: "secret \<Rightarrow> jv" where
  "secretValue (SecretText s) = JStr s"
| "secretValue (SecretArray xs) = JArr (map JStr xs)"

text \<open>
  The interface \<open>SecretsProvider\<close>. A provider is stateless; what its backend answers is
  taken to be a function of the reference for the duration of one load.
\<close>

record provider =
  isSecretReference :: "string \<Rightarrow> bool"
  resolveSecret :: "string \<Rightarrow> err + secret"

text \<open>
  The backend clients. A client is an opaque SDK object: what the providers use of it are
  the calls below, each of which may throw (also when the object has no such method). The
  responses carry the optional fields the providers read. \<open>getParametersByPath\<close> and
  \<open>getParameter\<close> are the methods of the \<open>SSM\<close> client that the earlier Parameter Store
  provider calls, given by the fields of their input (\<open>Path\<close>, \<open>WithDecryption\<close>,
  \<open>Recursive\<close>; \<open>Name\<close>, \<open>WithDecryption\<close>) and by the \<open>Parameters\<close> or \<open>Parameter\<close>
  of their response.
\<close>

datatype parameter = Parameter (Name: "string option") (Value: "string option")

datatype ssm_command =
    GetParametersByPathCommand (Path: string) (WithDecryption: bool) (Recursive: bool)
  | GetParameterCommand string bool

datatype ssm_output =
    GetParametersByPathCommandOutput "parameter list option"
  | GetParameterCommandOutput "parameter option"

datatype secret_value_output =
  GetSecretValueCommandOutput (SecretString: "string option") (SecretBinary: "string option")

datatype key_vault_secret = KeyVaultSecret (secretText: "string option")

datatype payload_data = BufferData string | StringData string

datatype secret_payload = SecretPayload (payloadData: "payload_data option")

datatype access_response = AccessSecretVersionResponse (payload: "secret_payload option")

record client =
  constructorName :: string
  send :: "ssm_command \<Rightarrow> err + ssm_output"
  getSecretValue :: "string \<Rightarrow> err + secret_value_output"
  getSecret :: "string \<Rightarrow> err + key_vault_secret option"
  accessSecretVersion :: "string \<Rightarrow> err + access_response option"
  getParametersByPath :: "string \<Rightarrow> bool \<Rightarrow> bool \<Rightarrow> err + parameter list option"
  getParameter :: "string \<Rightarrow> bool \<Rightarrow> err + parameter option"

text \<open>
  What the loader uses of Node and of its libraries: the file system, the two parsers
  (each throws on malformed input; the result is typed \<open>Record<string, any>\<close>),
  \<open>path.join\<close>, the base directory computed by \<open>resolveBaseDirectory\<close> from the
  \<open>root\<close> option, the two \<open>Buffer\<close> conversions (a buffer is given by its bytes), and
  what lodash's merge arrives at for the pairs of values that \<open>mergeValue\<close> leaves to
  its parameter.
\<close>

record node =
  existsSync :: "string \<Rightarrow> bool"
  readFileSync :: "string \<Rightarrow> err + string"
  yamlLoad :: "string \<Rightarrow> err + obj"
  jsonParse :: "string \<Rightarrow> err + obj"
  pathJoin :: "string \<Rightarrow> string \<Rightarrow> string"
  resolveBaseDirectory :: "string option \<Rightarrow> string"
  bufferFromBase64 :: "string \<Rightarrow> string"
  bufferToUtf8 :: "string \<Rightarrow> string"
  mergeIrregular :: "jv \<Rightarrow> jv \<Rightarrow> err + jv"

subsection \<open>AWS Parameter Store\<close>

text \<open>
  The provider in its current form, with \<open>retrieveParametersByPath\<close> and
  \<open>retrieveSingleParameter\<close>. Its pattern is
  \<open>/^(?:\/[a-zA-Z0-9_./-]+|arn:[a-z-]+:ssm:[a-z0-9-]+:\d{12}:parameter\/[a-zA-Z0-9_./-]+)$/\<close>
\<close>

definition parameterChar :: "char \<Rightarrow> bool" where
  "parameterChar c =
     (lowerCase c \<or> upperCase c \<or> digit c
      \<or> c \<in> {CHR ''_'', CHR ''.'', CHR ''/'', CHR ''-''})"

definition parameterPathPattern :: rx where
  "parameterPathPattern =
     rxAlt (rxSeq (rxLit ''/'') (rxPlus parameterChar))
       (rxSeq (rxLit ''arn:'')
         (rxSeq (rxPlus (\<lambda>c. lowerCase c \<or> c = CHR ''-''))
           (rxSeq (rxLit '':ssm:'')
             (rxSeq (rxPlus (\<lambda>c. lowerCase c \<or> digit c \<or> c = CHR ''-''))
               (rxSeq (rxLit '':'')
                 (rxSeq (rxTimes 12 digit)
                   (rxSeq (rxLit '':parameter/'') (rxPlus parameterChar))))))))"

fun parametersOf :: "ssm_output \<Rightarrow> parameter list option" where
  "parametersOf (GetParametersByPathCommandOutput ps) = ps"
| "parametersOf (GetParameterCommandOutput p) = None"

fun parameterOf :: "ssm_output \<Rightarrow> parameter option" where
  "parameterOf (GetParameterCommandOutput p) = p"
| "parameterOf (GetParametersByPathCommandOutput ps) = None"

text \<open>
  The callback of \<open>map\<close>: a parameter without a value, or with the empty one, gives the
  empty string, which \<open>filter(Boolean)\<close> then drops, and a warning that names the
  parameter (a missing name is printed as \<open>undefined\<close>). The provider writes to a
  \<open>Logger\<close> of its own: the functions return their result together with the lines handed
  to it, and the loader sees the result only.
\<close>

definition parameterValue :: "parameter \<Rightarrow> string" where
  "parameterValue param = (case Value param of None \<Rightarrow> [] | Some v \<Rightarrow> v)"

definition parameterWarning :: "parameter \<Rightarrow> log_level \<times> string" where
  "parameterWarning param =
     (LogWarn, ''Parameter '' @ (case Name param of None \<Rightarrow> ''undefined'' | Some n \<Rightarrow> n)
        @ '' has no value'')"

definition retrieveParametersByPath :: "client \<Rightarrow> string \<Rightarrow> (err + string list) \<times> logs" where
  "retrieveParametersByPath c pathRef =
     (let basePath = take (length pathRef - 2) pathRef in
      case send c (GetParametersByPathCommand basePath True True) of
        Inl e \<Rightarrow> (Inl e, [])
      | Inr response \<Rightarrow>
          (case parametersOf response of
             None \<Rightarrow> (Inl (Error (''No parameters found at path: '' @ basePath)), [])
           | Some params \<Rightarrow>
               if length params = 0
               then (Inl (Error (''No parameters found at path: '' @ basePath)), [])
               else (Inr (filter (\<lambda>v. v \<noteq> []) (map parameterValue params)),
                     map parameterWarning (filter (\<lambda>param. parameterValue param = []) params))))"

definition retrieveSingleParameter :: "client \<Rightarrow> string \<Rightarrow> err + string" where
  "retrieveSingleParameter c paramName =
     (case send c (GetParameterCommand paramName True) of
        Inl e \<Rightarrow> Inl e
      | Inr response \<Rightarrow>
          (case parameterOf response of
             None \<Rightarrow> Inl (Error (''Parameter not found: '' @ paramName))
           | Some param \<Rightarrow>
               (case Value param of
                  None \<Rightarrow> Inl (Error (''Parameter value is empty for: '' @ paramName))
                | Some v \<Rightarrow>
                    if v = [] then Inl (Error (''Parameter value is empty for: '' @ paramName))
                    else Inr v)))"

definition parameterStoreResolveSecret :: "client \<Rightarrow> string \<Rightarrow> (err + secret) \<times> logs" where
  "parameterStoreResolveSecret c secretRef =
     (if endsWith secretRef ''/*''
      then (case retrieveParametersByPath c secretRef of
              (result, lg) \<Rightarrow> (map_sum id SecretArray result, lg))
      else (map_sum id SecretText (retrieveSingleParameter c secretRef), []))"

definition AwsParameterStoreProvider :: "client \<Rightarrow> provider" where
  "AwsParameterStoreProvider c =
     \<lparr>isSecretReference = rxTest parameterPathPattern,
      resolveSecret = (\<lambda>secretRef. fst (parameterStoreResolveSecret c secretRef))\<rparr>"

text \<open>
  The provider in its earlier form (\<open>src/providers/aws-parameter-store.provider.ts\<close>), on
  the \<open>SSM\<close> client: one \<open>resolveSecret\<close> inside a \<open>try\<close> whose \<open>catch\<close> logs the error
  and throws it again. The array it returns holds \<open>param.Value\<close> of every returned
  parameter as it is, so an entry may be undefined (\<open>None\<close>) or empty.
\<close>

datatype earlier_secret = EarlierText string | EarlierArray "string option list"

definition earlierFailure :: "err \<Rightarrow> (err + earlier_secret) \<times> logs" where
  "earlierFailure e = (Inl e, [(LogError, ''Failed to get AWS parameter: '' @ message e)])"

definition earlierResolveSecret :: "client \<Rightarrow> string \<Rightarrow> (err + earlier_secret) \<times> logs" where
  "earlierResolveSecret c secretRef =
     (if endsWith secretRef ''/*''
      then (let basePath = take (length secretRef - 2) secretRef in
            case getParametersByPath c basePath True True of
              Inl e \<Rightarrow> earlierFailure e
            | Inr parameters \<Rightarrow>
                (case parameters of
                   None \<Rightarrow> earlierFailure (Error (''No parameters found at path: '' @ basePath))
                 | Some params \<Rightarrow>
                     if length params = 0
                     then earlierFailure (Error (''No parameters found at path: '' @ basePath))
                     else (Inr (EarlierArray (map Value params)), [])))
      else (case getParameter c secretRef True of
              Inl e \<Rightarrow> earlierFailure e
            | Inr found \<Rightarrow>
                (case found of
                   None \<Rightarrow> earlierFailure (Error ''Parameter value is empty'')
                 | Some param \<Rightarrow>
                     (case Value param of
                        None \<Rightarrow> earlierFailure (Error ''Parameter value is empty'')
                      | Some v \<Rightarrow>
                          if v = [] then earlierFailure (Error ''Parameter value is empty'')
                          else (Inr (EarlierText v), [])))))"

subsection \<open>AWS Secrets Manager\<close>

text \<open>\<open>/^arn:aws:secretsmanager:[a-z0-9-]+:[0-9]+:secret:.+$/\<close>\<close>

definition arnPattern :: rx where
  "arnPattern =
     rxSeq (rxLit ''arn:aws:secretsmanager:'')
       (rxSeq (rxPlus (\<lambda>c. lowerCase c \<or> digit c \<or> c = CHR ''-''))
         (rxSeq (rxLit '':'')
           (rxSeq (rxPlus digit)
             (rxSeq (rxLit '':secret:'') (rxPlus anyChar)))))"

definition decodeBinarySecret :: "node \<Rightarrow> string \<Rightarrow> string" where
  "decodeBinarySecret env binaryData = bufferToUtf8 env (bufferFromBase64 env binaryData)"

definition secretsManagerResolveSecret :: "node \<Rightarrow> client \<Rightarrow> string \<Rightarrow> err + secret" where
  "secretsManagerResolveSecret env c secretRef =
     (case getSecretValue c secretRef of
        Inl e \<Rightarrow> Inl e
      | Inr response \<Rightarrow>
          (if SecretString response \<noteq> None \<and> SecretString response \<noteq> Some []
           then Inr (SecretText (the (SecretString response)))
           else (case SecretBinary response of
                   Some b \<Rightarrow> Inr (SecretText (decodeBinarySecret env b))
                 | None \<Rightarrow> Inl (Error ''Secret value is empty''))))"

definition AwsSecretsManagerProvider :: "node \<Rightarrow> client \<Rightarrow> provider" where
  "AwsSecretsManagerProvider env c =
     \<lparr>isSecretReference = rxTest arnPattern,
      resolveSecret = secretsManagerResolveSecret env c\<rparr>"

subsection \<open>Azure Key Vault\<close>

text \<open>
  \<open>/^https:\/\/[\w-]+\.vault\.azure\.net\/secrets\/([^/\s]+)(?:\/([^/\s]+))?$/\<close>
\<close>

definition vaultChar :: "char \<Rightarrow> bool" where
  "vaultChar c = (wordChar c \<or> c = CHR ''-'')"

definition segmentChar :: "char \<Rightarrow> bool" where
  "segmentChar c = (c \<noteq> CHR ''/'' \<and> \<not> spaceChar c)"

definition secretUrlPattern :: rx where
  "secretUrlPattern =
     rxSeq (rxLit ''https://'')
       (rxSeq (rxPlus vaultChar)
         (rxSeq (rxLit ''.vault.azure.net/secrets/'')
           (rxSeq (rxGroup (rxPlus segmentChar))
             (rxOpt (rxSeq (rxLit ''/'') (rxGroup (rxPlus segmentChar)))))))"

text \<open>
  \<open>parseSecretReference\<close> returns \<open>match[1]\<close>; \<open>match[2]\<close>, the version, is never read.
\<close>

definition invalidReference :: "string \<Rightarrow> err" where
  "invalidReference secretRef =
     Error (''Invalid Azure Key Vault secret reference: '' @ secretRef
       @ ''. Expected format: https://<vault-name>.vault.azure.net/secrets/<secret-name>[/<version>]'')"

definition emptySecret :: "string \<Rightarrow> err" where
  "emptySecret secretName =
     Error (''Secret '' @ [CHR 0x27] @ secretName @ [CHR 0x27]
       @ '' was retrieved but has an empty value'')"

definition parseSecretReference :: "string \<Rightarrow> err + string" where
  "parseSecretReference secretRef =
     (case rxMatch secretUrlPattern secretRef of
        None \<Rightarrow> Inl (invalidReference secretRef)
      | Some groups \<Rightarrow> Inr (groups ! 1))"

definition keyVaultResolveSecret :: "client \<Rightarrow> string \<Rightarrow> err + secret" where
  "keyVaultResolveSecret c secretRef =
     (case parseSecretReference secretRef of
        Inl e \<Rightarrow> Inl e
      | Inr secretName \<Rightarrow>
          (case getSecret c secretName of
             Inl e \<Rightarrow> Inl e
           | Inr response \<Rightarrow>
               (case response of
                  None \<Rightarrow> Inl (emptySecret secretName)
                | Some r \<Rightarrow>
                    (case secretText r of
                       None \<Rightarrow> Inl (emptySecret secretName)
                     | Some v \<Rightarrow>
                         if v = [] then Inl (emptySecret secretName)
                         else Inr (SecretText v)))))"

definition AzureKeyVaultProvider :: "client \<Rightarrow> provider" where
  "AzureKeyVaultProvider c =
     \<lparr>isSecretReference = rxTest secretUrlPattern,
      resolveSecret = keyVaultResolveSecret c\<rparr>"

subsection \<open>Google Secret Manager\<close>

text \<open>\<open>/^projects\/[^/]+\/secrets\/[^/]+\/versions\/[^/]+$/\<close>\<close>

definition notSlash :: "char \<Rightarrow> bool" where
  "notSlash c = (c \<noteq> CHR ''/'')"

definition secretPathPattern :: rx where
  "secretPathPattern =
     rxSeq (rxLit ''projects/'')
       (rxSeq (rxPlus notSlash)
         (rxSeq (rxLit ''/secrets/'')
           (rxSeq (rxPlus notSlash)
             (rxSeq (rxLit ''/versions/'') (rxPlus notSlash)))))"

definition secretManagerResolveSecret :: "node \<Rightarrow> client \<Rightarrow> string \<Rightarrow> err + secret" where
  "secretManagerResolveSecret env c secretRef =
     (case accessSecretVersion c secretRef of
        Inl e \<Rightarrow> Inl e
      | Inr response \<Rightarrow>
          (case response of
             None \<Rightarrow> Inl (Error ''Secret payload is missing'')
           | Some r \<Rightarrow>
               (case payload r of
                  None \<Rightarrow> Inl (Error ''Secret payload is missing'')
                | Some pl \<Rightarrow>
                    (case payloadData pl of
                       None \<Rightarrow> Inl (Error ''Secret payload data is missing'')
                     | Some (BufferData b) \<Rightarrow> Inr (SecretText (bufferToUtf8 env b))
                     | Some (StringData s) \<Rightarrow>
                         if s = [] then Inl (Error ''Secret payload data is missing'')
                         else Inr (SecretText s)))))"

definition GoogleSecretManagerProvider :: "node \<Rightarrow> client \<Rightarrow> provider" where
  "GoogleSecretManagerProvider env c =
     \<lparr>isSecretReference = rxTest secretPathPattern,
      resolveSecret = secretManagerResolveSecret env c\<rparr>"

section \<open>The loader service\<close>

text \<open>
  The functions of \<open>SecretsLoaderService\<close>. Each returns its result together with the
  lines it hands to its \<open>Logger\<close>. A \<open>try\<close>/\<open>catch\<close> is the case distinction on the
  result of the call it encloses.
\<close>

datatype provider_option = ProviderTag string | ProviderInstance provider

record options =
  optProvider :: "provider_option option"
  optClient :: "client option"
  root :: "string option"
  files :: "string list"
  fileType :: "file_type option"

definition createSecretProvider :: "node \<Rightarrow> string \<Rightarrow> client \<Rightarrow> provider option \<times> logs" where
  "createSecretProvider env key c =
     (if key = ''AwsSecretsManagerProvider'' \<or> key = ''SecretsManager''
        then (Some (AwsSecretsManagerProvider env c), [])
      else if key = ''AwsParameterStoreProvider'' \<or> key = ''SSMClient''
        then (Some (AwsParameterStoreProvider c), [])
      else if key = ''AzureKeyVaultProvider'' \<or> key = ''SecretClient''
        then (Some (AzureKeyVaultProvider c), [])
      else if key = ''GoogleSecretManagerProvider'' \<or> key = ''SecretManagerServiceClient''
        then (Some (GoogleSecretManagerProvider env c), [])
      else (None, [(LogWarn, ''Unsupported secret provider: '' @ constructorName c)]))"


definition loadProvider :: "node \<Rightarrow> options \<Rightarrow> provider option \<times> logs" where
  "loadProvider env opts =
     (case optProvider opts of
        Some (ProviderInstance p) \<Rightarrow> (Some p, [])
      | Some (ProviderTag key) \<Rightarrow>
          (case optClient opts of
             Some c \<Rightarrow> createSecretProvider env key c
           | None \<Rightarrow> (None, []))
      | None \<Rightarrow>
          (case optClient opts of
             Some c \<Rightarrow> createSecretProvider env (constructorName c) c
           | None \<Rightarrow> (None, [])))"

definition fullPathOf :: "string \<Rightarrow> string \<Rightarrow> string" where
  "fullPathOf path key = (if path \<noteq> [] then path @ ''.'' @ key else key)"

text \<open>
  \<open>resolveSecrets\<close> visits the keys of \<open>config\<close> in order and overwrites \<open>config[key]\<close> in
  place; \<open>resolveEntry\<close> is the body of its loop for the value found at one key.
\<close>

fun resolveEntry :: "provider \<Rightarrow> string \<Rightarrow> jv \<Rightarrow> jv \<times> logs"
  and resolveSecrets :: "provider \<Rightarrow> string \<Rightarrow> obj \<Rightarrow> obj \<times> logs"
where
  "resolveEntry secretProvider fullPath (JStr s) =
     (if isSecretReference secretProvider s
      then (case resolveSecret secretProvider s of
              Inr v \<Rightarrow>
                (secretValue v, [(LogDebug, ''Loaded secret from provider ['' @ fullPath @ '']'')])
            | Inl e \<Rightarrow>
                (JStr s,
                 [(LogError, ''Failed to load secret ['' @ fullPath @ '']: '' @ message e)]))
      else (JStr s, []))"
| "resolveEntry secretProvider fullPath (JObj ps) =
     (case resolveSecrets secretProvider fullPath ps of (ps', lg) \<Rightarrow> (JObj ps', lg))"
| "resolveEntry secretProvider fullPath JNull = (JNull, [])"
| "resolveEntry secretProvider fullPath (JBool b) = (JBool b, [])"
| "resolveEntry secretProvider fullPath (JNum n) = (JNum n, [])"
| "resolveEntry secretProvider fullPath (JArr xs) = (JArr xs, [])"
| "resolveEntry secretProvider fullPath JArrX = (JArrX, [])"
| "resolveSecrets secretProvider path [] = ([], [])"
| "resolveSecrets secretProvider path ((key, v) # rest) =
     (case resolveEntry secretProvider (fullPathOf path key) v of (v', lg) \<Rightarrow>
        (case resolveSecrets secretProvider path rest of (rest', lg') \<Rightarrow>
           ((key, v') # rest', lg @ lg')))"

definition parseFileContent :: "node \<Rightarrow> file_type option \<Rightarrow> string \<Rightarrow> string \<Rightarrow> err + obj" where
  "parseFileContent env ft filename fileContent =
     (case chosenParser ft filename of
        Yaml \<Rightarrow> yamlLoad env fileContent
      | Json \<Rightarrow> jsonParse env fileContent)"

text \<open>
  The body of the loop over \<open>files\<close>. The call of \<open>merge\<close> is inside the \<open>try\<close>: a file
  whose merge throws is logged and left out like one that cannot be read or parsed.
\<close>

definition loadFile :: "node \<Rightarrow> file_type option \<Rightarrow> string \<Rightarrow> obj \<times> logs \<Rightarrow> string \<Rightarrow> obj \<times> logs" where
  "loadFile env ft baseDirectory st filename =
     (let mergedConfig = fst st;
          lg = snd st;
          filePath = pathJoin env baseDirectory filename;
          loading = (LogDebug, ''Loading config from '' @ filePath);
          failed = (\<lambda>e. (LogError, ''Failed to load config from '' @ filePath @ '': '' @ message e))
      in if existsSync env filePath
         then (case readFileSync env filePath of
                 Inl e \<Rightarrow> (mergedConfig, lg @ [loading, failed e])
               | Inr fileContent \<Rightarrow>
                   (case parseFileContent env ft filename fileContent of
                      Inl e \<Rightarrow> (mergedConfig, lg @ [loading, failed e])
                    | Inr fileConfig \<Rightarrow>
                        (case merge (mergeIrregular env) [] [mergedConfig, fileConfig] of
                           Inl e \<Rightarrow> (mergedConfig, lg @ [loading, failed e])
                         | Inr merged \<Rightarrow> (merged, lg @ [loading]))))
         else (mergedConfig, lg @ [(LogDebug, ''Config file not found: '' @ filePath)]))"

text \<open>
  \<open>loadConfigFiles\<close>. When the \<open>root\<close> option is missing or empty,
  \<open>resolveBaseDirectory\<close> logs the directory it falls back to, before anything else.
\<close>

definition loadConfigFiles :: "node \<Rightarrow> provider option \<Rightarrow> options \<Rightarrow> obj \<times> logs" where
  "loadConfigFiles env prov opts =
     (let baseDirectory = resolveBaseDirectory env (root opts);
          fallback = (if root opts = None \<or> root opts = Some []
                      then [(LogDebug, ''No base directory specified, using: '' @ baseDirectory)]
                      else [])
      in if length (files opts) = 0
      then ([], fallback @ [(LogWarn, ''No configuration files specified'')])
      else (case foldl (loadFile env (fileType opts) baseDirectory) ([], []) (files opts) of
              (mergedConfig, lg) \<Rightarrow>
                (case prov of
                   Some secretProvider \<Rightarrow>
                     (case resolveSecrets secretProvider [] mergedConfig of
                        (resolved, lg') \<Rightarrow> (resolved, fallback @ lg @ lg'))
                 | None \<Rightarrow> (mergedConfig, fallback @ lg))))"


text \<open>\<open>load\<close>, up to the \<open>ConfigService\<close> that wraps the tree it returns.\<close>

definition load :: "node \<Rightarrow> options \<Rightarrow> obj \<times> logs" where
  "load env opts =
     (case loadProvider env opts of
        (prov, lg) \<Rightarrow>
          (case loadConfigFiles env prov opts of (config, lg') \<Rightarrow> (config, lg @ lg')))"

section \<open>Stand-ins for the outside world\<close>

text \<open>
  Concrete collaborators to run the loader on: an SDK object of a given class that has
  none of the backend methods (calling one throws a \<open>TypeError\<close>), to be given methods
  by record update, and a Node whose files and parsed documents are listed explicitly
  (and which answers with the untracked array \<open>JArrX\<close> wherever \<open>mergeValue\<close> asks).
\<close>

definition bareClient :: "string \<Rightarrow> client" where
  "bareClient className =
     \<lparr>constructorName = className,
      send = (\<lambda>command. Inl (Error ''this.client.send is not a function'')),
      getSecretValue = (\<lambda>secretId. Inl (Error ''this.client.getSecretValue is not a function'')),
      getSecret = (\<lambda>secretName. Inl (Error ''this.client.getSecret is not a function'')),
      accessSecretVersion =
        (\<lambda>secretRef. Inl (Error ''this.client.accessSecretVersion is not a function'')),
      getParametersByPath =
        (\<lambda>path withDecryption recursive.
           Inl (Error ''this.client.getParametersByPath is not a function'')),
      getParameter =
        (\<lambda>name withDecryption. Inl (Error ''this.client.getParameter is not a function''))\<rparr>"

definition memoryNode :: "(string \<times> string) list \<Rightarrow> (string \<times> obj) list \<Rightarrow> (string \<times> obj) list \<Rightarrow> node" where
  "memoryNode fileContents yamlDocuments jsonDocuments =
     \<lparr>existsSync = (\<lambda>filePath. map_of fileContents filePath \<noteq> None),
      readFileSync = (\<lambda>filePath. case map_of fileContents filePath of
         Some fileContent \<Rightarrow> Inr fileContent
       | None \<Rightarrow> Inl (Error (''ENOENT: no such file or directory, open '' @ filePath))),
      yamlLoad = (\<lambda>fileContent. case map_of yamlDocuments fileContent of
         Some document \<Rightarrow> Inr document
       | None \<Rightarrow> Inl (Error ''YAMLException'')),
      jsonParse = (\<lambda>fileContent. case map_of jsonDocuments fileContent of
         Some document \<Rightarrow> Inr document
       | None \<Rightarrow> Inl (Error ''SyntaxError'')),
      pathJoin = (\<lambda>directory filename. directory @ ''/'' @ filename),
      resolveBaseDirectory = (\<lambda>directoryPath. case directoryPath of
         Some directory \<Rightarrow> if directory = [] then ''/app/config'' else directory
       | None \<Rightarrow> ''/app/config''),
      bufferFromBase64 = (\<lambda>text. text),
      bufferToUtf8 = (\<lambda>bytes. bytes),
      mergeIrregular = (\<lambda>objValue srcValue. Inr JArrX)\<rparr>"

text \<open>
  A provider that answers from a table (a reference is a string the table lists), a
  Node and options for a load of the single file \<open>settings.yaml\<close> holding a given tree,
  and a Node and options for a load of \<open>base.yaml\<close> and then \<open>override.yaml\<close>.
\<close>

definition tableProvider :: "(string \<times> (err + secret)) list \<Rightarrow> provider" where
  "tableProvider answers =
     \<lparr>isSecretReference = (\<lambda>s. map_of answers s \<noteq> None),
      resolveSecret = (\<lambda>secretRef. case map_of answers secretRef of
         Some answer \<Rightarrow> answer
       | None \<Rightarrow> Inl (Error ''not found''))\<rparr>"





section \<open>Theorems\<close>

subsection \<open>Format selection\<close>

text \<open>
  C10. With \<open>fileType\<close> set to \<open>'json'\<close>, a file of the list whose name ends in \<open>.yml\<close> or
  \<open>.yaml\<close> is nevertheless parsed as YAML: the loop hands the content it read to
  \<open>yaml.load\<close>, not to \<open>JSON.parse\<close>, and goes on with the document \<open>yaml.load\<close> returns,
  merged into the tree built so far (or with that tree unchanged when \<open>yaml.load\<close> or
  the merge throws). A file with any other name is handled in the same way with
  \<open>JSON.parse\<close>. With \<open>fileType\<close> set to \<open>'yaml'\<close> every file goes to \<open>yaml.load\<close>. So
  only the \<open>'yaml'\<close> hint forces a format.
\<close>

theorem json_hint_yields_to_yaml_extension:
  assumes "existsSync env (pathJoin env baseDirectory filename)"
    and "readFileSync env (pathJoin env baseDirectory filename) = Inr fileContent"
  shows "(endsWith filename ''.yml'' \<or> endsWith filename ''.yaml'' \<longrightarrow>
           fst (loadFile env (Some Json) baseDirectory (mergedConfig, lg) filename)
             = (case yamlLoad env fileContent of
                  Inl e \<Rightarrow> mergedConfig
                | Inr fileConfig \<Rightarrow>
                    (case merge (mergeIrregular env) [] [mergedConfig, fileConfig] of
                       Inl e \<Rightarrow> mergedConfig
                     | Inr merged \<Rightarrow> merged)))
     \<and> (\<not> endsWith filename ''.yml'' \<and> \<not> endsWith filename ''.yaml'' \<longrightarrow>
           fst (loadFile env (Some Json) baseDirectory (mergedConfig, lg) filename)
             = (case jsonParse env fileContent of
                  Inl e \<Rightarrow> mergedConfig
                | Inr fileConfig \<Rightarrow>
                    (case merge (mergeIrregular env) [] [mergedConfig, fileConfig] of
                       Inl e \<Rightarrow> mergedConfig
                     | Inr merged \<Rightarrow> merged)))
     \<and> fst (loadFile env (Some Yaml) baseDirectory (mergedConfig, lg) filename)
         = (case yamlLoad env fileContent of
              Inl e \<Rightarrow> mergedConfig
            | Inr fileConfig \<Rightarrow>
                (case merge (mergeIrregular env) [] [mergedConfig, fileConfig] of
                   Inl e \<Rightarrow> mergedConfig
                 | Inr merged \<Rightarrow> merged))"
proof -
  have "\<And>ft. fst (loadFile env ft baseDirectory (mergedConfig, lg) filename)
      = (case parseFileContent env ft filename fileContent of
           Inl e \<Rightarrow> mergedConfig
         | Inr fileConfig \<Rightarrow>
             (case merge (mergeIrregular env) [] [mergedConfig, fileConfig] of
                Inl e \<Rightarrow> mergedConfig
              | Inr merged \<Rightarrow> merged))"
    using assms by (simp add: loadFile_def Let_def split: sum.splits)
  then show ?thesis
    by (simp add: parseFileContent_def chosenParser_def parsedAsYaml_def fileTypeOrDefault_def)
qed

theorem json_hint_yields_to_yaml_extension_witness:
  "existsSync (memoryNode [(''/app/config/settings.yaml'', ''port: 1'')]
        [(''port: 1'', [(''port'', JNum 1)])] [])
      (pathJoin (memoryNode [(''/app/config/settings.yaml'', ''port: 1'')]
        [(''port: 1'', [(''port'', JNum 1)])] []) ''/app/config'' ''settings.yaml'')
   \<and> readFileSync (memoryNode [(''/app/config/settings.yaml'', ''port: 1'')]
        [(''port: 1'', [(''port'', JNum 1)])] [])
      (pathJoin (memoryNode [(''/app/config/settings.yaml'', ''port: 1'')]
        [(''port: 1'', [(''port'', JNum 1)])] []) ''/app/config'' ''settings.yaml'')
       = Inr ''port: 1''
   \<and> endsWith ''settings.yaml'' ''.yaml''
   \<and> jsonParse (memoryNode [(''/app/config/settings.yaml'', ''port: 1'')]
        [(''port: 1'', [(''port'', JNum 1)])] []) ''port: 1'' = Inl (Error ''SyntaxError'')
   \<and> fst (loadFile (memoryNode [(''/app/config/settings.yaml'', ''port: 1'')]
        [(''port: 1'', [(''port'', JNum 1)])] []) (Some Json) ''/app/config'' ([], [])
        ''settings.yaml'') = [(''port'', JNum 1)]"
proof -
  let ?env = "memoryNode [(''/app/config/settings.yaml'', ''port: 1'')]
        [(''port: 1'', [(''port'', JNum 1)])] []"
  have p: "pathJoin ?env ''/app/config'' ''settings.yaml'' = ''/app/config/settings.yaml''"
    by (simp add: memoryNode_def)
  have e: "existsSync ?env (pathJoin ?env ''/app/config'' ''settings.yaml'')"
    unfolding p by (simp add: memoryNode_def)
  have r: "readFileSync ?env (pathJoin ?env ''/app/config'' ''settings.yaml'') = Inr ''port: 1''"
    unfolding p by (simp add: memoryNode_def)
  have x: "endsWith ''settings.yaml'' ''.yaml''" by (simp add: endsWith_def)
  have j: "jsonParse ?env ''port: 1'' = Inl (Error ''SyntaxError'')"
    by (simp add: memoryNode_def)
  have y: "yamlLoad ?env ''port: 1'' = Inr [(''port'', JNum 1)]"
    by (simp add: memoryNode_def)
  have m: "merge (mergeIrregular ?env) [] [[], [(''port'', JNum 1)]] = Inr [(''port'', JNum 1)]"
    by (simp add: merge_def)
  from json_hint_yields_to_yaml_extension [OF e r, of "[]" "[]",
      THEN conjunct1] x
  have "fst (loadFile ?env (Some Json) ''/app/config'' ([], []) ''settings.yaml'')
      = (case yamlLoad ?env ''port: 1'' of
           Inl e \<Rightarrow> []
         | Inr fileConfig \<Rightarrow>
             (case merge (mergeIrregular ?env) [] [[], fileConfig] of
                Inl e \<Rightarrow> []
              | Inr merged \<Rightarrow> merged))"
    by blast
  then have l: "fst (loadFile ?env (Some Json) ''/app/config'' ([], []) ''settings.yaml'')
      = [(''port'', JNum 1)]"
    unfolding y by (simp add: m)
  from e r x j l show ?thesis by (intro conjI)
qed

text \<open>
  C2 (as amended). With \<open>fileType\<close> set to \<open>'yaml'\<close>, every file is parsed as YAML whatever
  its name. With \<open>fileType\<close> set to \<open>'json'\<close>, the format is decided per file by the
  extension: a name ending in \<open>.yml\<close> or \<open>.yaml\<close> is parsed as YAML, every other name as
  JSON. The hint does not take precedence over the extension unless it is \<open>'yaml'\<close>.
\<close>

theorem format_selection_with_hint:
  "parseFileContent env (Some Yaml) filename fileContent = yamlLoad env fileContent
   \<and> (endsWith filename ''.yml'' \<or> endsWith filename ''.yaml'' \<longrightarrow>
        parseFileContent env (Some Json) filename fileContent = yamlLoad env fileContent)
   \<and> (\<not> endsWith filename ''.yml'' \<and> \<not> endsWith filename ''.yaml'' \<longrightarrow>
        parseFileContent env (Some Json) filename fileContent = jsonParse env fileContent)"
  by (simp add: parseFileContent_def chosenParser_def parsedAsYaml_def fileTypeOrDefault_def)

theorem format_selection_with_hint_witness:
  "endsWith ''override.yml'' ''.yml''
   \<and> parseFileContent (memoryNode [] [(''a: 1'', [(''a'', JNum 1)])] []) (Some Json)
         ''override.yml'' ''a: 1'' = Inr [(''a'', JNum 1)]
   \<and> \<not> endsWith ''base.json'' ''.yml'' \<and> \<not> endsWith ''base.json'' ''.yaml''
   \<and> parseFileContent (memoryNode [] [] [(''{}'', [])]) (Some Json) ''base.json'' ''{}'' = Inr []"
  using format_selection_with_hint
      [of "memoryNode [] [(''a: 1'', [(''a'', JNum 1)])] []" "''override.yml''" "''a: 1''"]
    format_selection_with_hint [of "memoryNode [] [] [(''{}'', [])]" "''base.json''" "''{}''"]
  by (simp add: endsWith_def memoryNode_def)

theorem format_selection_counterexample:
  "chosenParser (Some Json) ''settings.yaml'' = Yaml
   \<and> chosenParser None ''settings.json'' = Yaml"
  by (simp add: chosenParser_def parsedAsYaml_def fileTypeOrDefault_def endsWith_def)

subsection \<open>Merging\<close>

lemma map_sum_Inr: "map_sum id f x = Inr r \<longleftrightarrow> (\<exists>y. x = Inr y \<and> r = f y)"
  by (cases x) auto












lemma isScalar_not_isObject: "isScalar v \<Longrightarrow> \<not> isObject v"
  by (cases v) simp_all



text \<open>The merge fails only where lodash's treatment of an irregular pair does.\<close>

lemma merge_completes:
  shows "\<forall>a b. \<exists>r. ir a b = Inr r \<Longrightarrow> \<exists>r. mergeValue ir objValue srcValue = Inr r"
    and "\<forall>a b. \<exists>r. ir a b = Inr r \<Longrightarrow> \<exists>m. baseMerge ir object source = Inr m"
    and "\<forall>a b. \<exists>r. ir a b = Inr r \<Longrightarrow> \<exists>zs. baseMergeArray ir xs ys = Inr zs"
proof (induction ir objValue srcValue and ir object source and ir xs ys
    rule: mergeValue_baseMerge_baseMergeArray.induct)
  case (5 irregular objValue)
  then show ?case by (auto split: option.splits jv.splits)
next
  case (6 irregular objValue ys)
  then show ?case by (auto split: option.splits jv.splits simp: map_sum_Inr)
next
  case (7 irregular objValue qs)
  then show ?case by (auto split: option.splits jv.splits simp: map_sum_Inr)
next
  case (9 irregular object key srcValue source)
  show ?case
  proof (cases "key = ''__proto__'' \<and> isObject srcValue")
    case True
    with "9.IH"(1) "9.prems" show ?thesis by simp
  next
    case False
    from "9.IH"(2) [OF False "9.prems"] obtain r where
      r: "mergeValue irregular (map_of object key) srcValue = Inr r" by blast
    from "9.IH"(3) [OF False r "9.prems"] show ?thesis using False r by auto
  qed
next
  case (11 irregular y ys)
  from "11.IH"(1) [OF "11.prems"] obtain z where z: "mergeValue irregular None y = Inr z" by blast
  from "11.IH"(2) [OF z "11.prems"] show ?case using z by (auto simp: map_sum_Inr)
next
  case (12 irregular x xs y ys)
  from "12.IH"(1) [OF "12.prems"] obtain z where z: "mergeValue irregular (Some x) y = Inr z"
    by blast
  from "12.IH"(2) [OF z "12.prems"] show ?case using z by (auto simp: map_sum_Inr)
qed auto















subsection \<open>Reference syntax\<close>

lemmas rx_defs = rxSeq_def rxAlt_def rxOpt_def rxGroup_def fullMatches_def rxTest_def rxMatch_def
lemmas class_defs = lowerCase_def upperCase_def digit_def wordChar_def spaceChar_def anyChar_def
  parameterChar_def vaultChar_def segmentChar_def notSlash_def

lemma rxLit_eq: "rxLit l s = (if take (length l) s = l then [([], drop (length l) s)] else [])"
  by (induction l s rule: rxLit.induct) auto

lemma rxSeq_rxLit:
  "rxSeq (rxLit l) b s = (if take (length l) s = l then b (drop (length l) s) else [])"
  by (simp add: rxSeq_def rxLit_eq)

lemma rxSeq_rxLit_append: "rxSeq (rxLit l) b (l @ t) = b t"
  by (simp add: rxSeq_rxLit)

lemma rxTest_rxSeq_rxLit: "rxTest (rxSeq (rxLit l) b) s \<Longrightarrow> \<exists>t. s = l @ t"
proof -
  assume "rxTest (rxSeq (rxLit l) b) s"
  then have "rxSeq (rxLit l) b s \<noteq> []"
    by (auto simp: rxTest_def fullMatches_def)
  then have "take (length l) s = l"
    by (simp add: rxSeq_rxLit split: if_splits)
  then have "s = l @ drop (length l) s"
    by (metis append_take_drop_id)
  then show ?thesis ..
qed

lemma rxTest_rxAlt: "rxTest (rxAlt a b) s = (rxTest a s \<or> rxTest b s)"
  by (auto simp: rxTest_def fullMatches_def rxAlt_def)

lemma rxPlus_stop: "t = [] \<or> \<not> p (hd t) \<Longrightarrow> rxPlus p t = []"
  by (cases t) auto

lemma rxSeq_rxPlus_delimited:
  assumes "list_all p v" and "v \<noteq> []" and "t = [] \<or> \<not> p (hd t)"
    and "\<And>x r. p x \<Longrightarrow> b (x # r) = []"
  shows "rxSeq (rxPlus p) b (v @ t) = b t"
  using assms(1,2)
proof (induction v)
  case Nil
  then show ?case by simp
next
  case (Cons x v)
  then have px: "p x" and pv: "list_all p v" by simp_all
  show ?case
  proof (cases v)
    case Nil
    then show ?thesis
      using px rxPlus_stop [of t p] assms(3) by (simp add: rxSeq_def)
  next
    case (Cons x' v')
    with pv have "p x'" by simp
    then have "b (v @ t) = []" using assms(4) Cons by simp
    moreover have "rxSeq (rxPlus p) b (v @ t) = b t"
      using Cons.IH pv Cons by simp
    ultimately show ?thesis
      using px by (simp add: rxSeq_def)
  qed
qed

lemma filter_full_map:
  "filter (\<lambda>m. snd m = []) (map (\<lambda>m. (f m, snd m)) ms)
     = map (\<lambda>m. (f m, snd m)) (filter (\<lambda>m. snd m = []) ms)"
  by (induction ms) auto

lemma group_plus_aux:
  assumes "t = [] \<or> \<not> p (hd t)"
    and "\<And>x r. p x \<Longrightarrow> fullMatches b (x # r) = []"
  shows "list_all p v \<Longrightarrow> v \<noteq> [] \<Longrightarrow>
    filter (\<lambda>m. snd m = [])
      (concat (map (\<lambda>m. map (\<lambda>m'. (fst m @ fst m', snd m')) (b (snd m)))
         (map (\<lambda>m. (take (length (pre @ v @ t) - length (snd m)) (pre @ v @ t) # fst m, snd m))
            (rxPlus p (v @ t)))))
    = map (\<lambda>m. ((pre @ v) # fst m, snd m)) (fullMatches b t)"
proof (induction v arbitrary: pre)
  case Nil
  then show ?case by simp
next
  case (Cons x v)
  then have px: "p x" and pv: "list_all p v" by simp_all
  have last: "filter (\<lambda>m. snd m = []) (map (\<lambda>m'. ((pre @ [x]) # fst m', snd m')) (b (v @ t)))
      = map (\<lambda>m'. ((pre @ [x]) # fst m', snd m')) (fullMatches b (v @ t))"
    unfolding fullMatches_def by (rule filter_full_map)
  show ?case
  proof (cases v)
    case Nil
    then show ?thesis
      using px rxPlus_stop [of t p] assms(1) last by (simp add: fullMatches_def)
  next
    case (Cons x' v')
    with pv have "p x'" by simp
    then have e: "fullMatches b (v @ t) = []" using assms(2) Cons by simp
    have ih: "filter (\<lambda>m. snd m = [])
      (concat (map (\<lambda>m. map (\<lambda>m'. (fst m @ fst m', snd m')) (b (snd m)))
         (map (\<lambda>m. (take (length ((pre @ [x]) @ v @ t) - length (snd m)) ((pre @ [x]) @ v @ t) # fst m, snd m))
            (rxPlus p (v @ t)))))
      = map (\<lambda>m. (((pre @ [x]) @ v) # fst m, snd m)) (fullMatches b t)"
      using Cons.IH [of "pre @ [x]"] pv Cons by simp
    show ?thesis
      using px ih last e by simp
  qed
qed

lemma fullMatches_group_plus:
  assumes "list_all p v" and "v \<noteq> []" and "t = [] \<or> \<not> p (hd t)"
    and "\<And>x r. p x \<Longrightarrow> fullMatches b (x # r) = []"
  shows "fullMatches (rxSeq (rxGroup (rxPlus p)) b) (v @ t)
     = map (\<lambda>m. (v # fst m, snd m)) (fullMatches b t)"
  using group_plus_aux [OF assms(3,4) assms(1,2), of "[]"]
  by (simp add: fullMatches_def rxSeq_def rxGroup_def)

lemma rxSeq_epsilon: "rxSeq a (rxLit []) s = a s"
  by (simp add: rxSeq_def)

lemma fullMatches_group_plus_end:
  assumes "list_all p v" and "v \<noteq> []"
  shows "fullMatches (rxGroup (rxPlus p)) v = [([v], [])]"
proof -
  have "fullMatches (rxSeq (rxGroup (rxPlus p)) (rxLit [])) (v @ [])
     = map (\<lambda>m. (v # fst m, snd m)) (fullMatches (rxLit []) [])"
    by (rule fullMatches_group_plus [OF assms]) (simp_all add: fullMatches_def)
  then show ?thesis
    by (simp add: fullMatches_def rxSeq_epsilon [abs_def])
qed


lemma vault_tail_rejects:
  "vaultChar x \<Longrightarrow> rxSeq (rxLit ''.vault.azure.net/secrets/'') b (x # r) = []"
  by (auto simp: rxSeq_rxLit class_defs)

lemma optional_version_rejects:
  "segmentChar x \<Longrightarrow>
   fullMatches (rxOpt (rxSeq (rxLit ''/'') (rxGroup (rxPlus segmentChar)))) (x # r) = []"
  by (auto simp: rxSeq_rxLit rxOpt_def fullMatches_def segmentChar_def)

lemma fullMatches_secretUrlPattern:
  assumes "list_all vaultChar vault" and "vault \<noteq> []"
    and "list_all segmentChar name" and "name \<noteq> []"
    and "rest = [] \<or> \<not> segmentChar (hd rest)"
  shows "fullMatches secretUrlPattern
           (''https://'' @ vault @ ''.vault.azure.net/secrets/'' @ name @ rest)
     = map (\<lambda>m. (name # fst m, snd m))
         (fullMatches (rxOpt (rxSeq (rxLit ''/'') (rxGroup (rxPlus segmentChar)))) rest)"
proof -
  let ?B4 = "rxOpt (rxSeq (rxLit ''/'') (rxGroup (rxPlus segmentChar)))"
  let ?B3 = "rxSeq (rxGroup (rxPlus segmentChar)) ?B4"
  let ?B2 = "rxSeq (rxLit ''.vault.azure.net/secrets/'') ?B3"
  have nv: "''.vault.azure.net/secrets/'' @ name @ rest = []
      \<or> \<not> vaultChar (hd (''.vault.azure.net/secrets/'' @ name @ rest))"
    by (simp add: class_defs)
  have 1: "secretUrlPattern (''https://'' @ vault @ ''.vault.azure.net/secrets/'' @ name @ rest)
      = rxSeq (rxPlus vaultChar) ?B2 (vault @ ''.vault.azure.net/secrets/'' @ name @ rest)"
    unfolding secretUrlPattern_def by (rule rxSeq_rxLit_append)
  have 2: "rxSeq (rxPlus vaultChar) ?B2 (vault @ ''.vault.azure.net/secrets/'' @ name @ rest)
      = ?B2 (''.vault.azure.net/secrets/'' @ name @ rest)"
    by (rule rxSeq_rxPlus_delimited [OF assms(1,2) nv]) (rule vault_tail_rejects)
  have 3: "?B2 (''.vault.azure.net/secrets/'' @ name @ rest) = ?B3 (name @ rest)"
    by (rule rxSeq_rxLit_append)
  have 4: "fullMatches ?B3 (name @ rest) = map (\<lambda>m. (name # fst m, snd m)) (fullMatches ?B4 rest)"
    by (rule fullMatches_group_plus [OF assms(3,4,5)]) (rule optional_version_rejects)
  show ?thesis
    using 1 2 3 4 by (simp add: fullMatches_def)
qed

lemma rxMatch_without_version:
  assumes "list_all vaultChar vault" and "vault \<noteq> []"
    and "list_all segmentChar name" and "name \<noteq> []"
  shows "rxMatch secretUrlPattern (''https://'' @ vault @ ''.vault.azure.net/secrets/'' @ name)
     = Some [''https://'' @ vault @ ''.vault.azure.net/secrets/'' @ name, name]"
  using fullMatches_secretUrlPattern [OF assms, of "[]"]
  by (simp add: rxMatch_def) (simp add: fullMatches_def rxOpt_def rxSeq_rxLit)

lemma rxMatch_with_version:
  assumes "list_all vaultChar vault" and "vault \<noteq> []"
    and "list_all segmentChar name" and "name \<noteq> []"
    and "list_all segmentChar version" and "version \<noteq> []"
  shows "rxMatch secretUrlPattern
           (''https://'' @ vault @ ''.vault.azure.net/secrets/'' @ name @ ''/'' @ version)
     = Some [''https://'' @ vault @ ''.vault.azure.net/secrets/'' @ name @ ''/'' @ version,
             name, version]"
proof -
  have r: "''/'' @ version = [] \<or> \<not> segmentChar (hd (''/'' @ version))"
    by (simp add: segmentChar_def)
  have "fullMatches (rxOpt (rxSeq (rxLit ''/'') (rxGroup (rxPlus segmentChar)))) (''/'' @ version)
      = [([version], [])]"
    using fullMatches_group_plus_end [OF assms(5,6)]
    by (simp add: fullMatches_def rxOpt_def rxSeq_rxLit)
  then show ?thesis
    using fullMatches_secretUrlPattern [OF assms(1,2,3,4) r]
    by (simp add: rxMatch_def)
qed

text \<open>
  C8. For a Key Vault reference with a version segment (a vault name of word characters
  and hyphens, a secret name and a version without \<open>/\<close> and white space), the pattern
  captures the version as its second group, but \<open>resolveSecret\<close> calls \<open>getSecret\<close> with
  the secret name alone: the result is what the backend answers for that name, an error
  when the answer or its value is missing or empty, and it is the same as for the
  reference without the version segment.
\<close>

theorem key_vault_version_is_not_forwarded:
  assumes "list_all vaultChar vault" and "vault \<noteq> []"
    and "list_all segmentChar name" and "name \<noteq> []"
    and "list_all segmentChar version" and "version \<noteq> []"
  shows "rxMatch secretUrlPattern
           (''https://'' @ vault @ ''.vault.azure.net/secrets/'' @ name @ ''/'' @ version)
       = Some [''https://'' @ vault @ ''.vault.azure.net/secrets/'' @ name @ ''/'' @ version,
               name, version]
     \<and> keyVaultResolveSecret c
           (''https://'' @ vault @ ''.vault.azure.net/secrets/'' @ name @ ''/'' @ version)
       = (case getSecret c name of
            Inl e \<Rightarrow> Inl e
          | Inr None \<Rightarrow> Inl (emptySecret name)
          | Inr (Some r) \<Rightarrow>
              (case secretText r of
                 None \<Rightarrow> Inl (emptySecret name)
               | Some v \<Rightarrow> if v = [] then Inl (emptySecret name) else Inr (SecretText v)))
     \<and> keyVaultResolveSecret c
           (''https://'' @ vault @ ''.vault.azure.net/secrets/'' @ name @ ''/'' @ version)
       = keyVaultResolveSecret c (''https://'' @ vault @ ''.vault.azure.net/secrets/'' @ name)"
  using rxMatch_with_version [OF assms] rxMatch_without_version [OF assms(1,2,3,4)]
  by (simp add: keyVaultResolveSecret_def parseSecretReference_def
      split: sum.splits option.splits)



theorem key_vault_version_is_not_forwarded_witness:
  "list_all vaultChar ''my-vault'' \<and> ''my-vault'' \<noteq> []
   \<and> list_all segmentChar ''my-secret'' \<and> ''my-secret'' \<noteq> []
   \<and> list_all segmentChar ''a1b2c3d4e5f6'' \<and> ''a1b2c3d4e5f6'' \<noteq> []
   \<and> keyVaultResolveSecret
        ((bareClient ''SecretClient'')
           \<lparr>getSecret := (\<lambda>secretName. Inr (Some (KeyVaultSecret (Some (''latest value of '' @ secretName)))))\<rparr>)
        ''https://my-vault.vault.azure.net/secrets/my-secret/a1b2c3d4e5f6''
       = Inr (SecretText ''latest value of my-secret'')"
proof -
  have v: "list_all vaultChar ''my-vault''" and v0: "''my-vault'' \<noteq> []"
    and n: "list_all segmentChar ''my-secret''" and n0: "''my-secret'' \<noteq> []"
    and r: "list_all segmentChar ''a1b2c3d4e5f6''" and r0: "''a1b2c3d4e5f6'' \<noteq> []"
    by (simp_all add: class_defs)
  show ?thesis
    using v n r key_vault_version_is_not_forwarded [OF v v0 n n0 r r0,
      of "(bareClient ''SecretClient'')
           \<lparr>getSecret := (\<lambda>secretName. Inr (Some (KeyVaultSecret (Some (''latest value of '' @ secretName)))))\<rparr>"]
    by simp
qed

lemmas pattern_defs = parameterPathPattern_def arnPattern_def secretUrlPattern_def
  secretPathPattern_def

lemma azure_prefix: "rxTest secretUrlPattern s \<Longrightarrow> \<exists>t. s = ''https://'' @ t"
  unfolding secretUrlPattern_def by (rule rxTest_rxSeq_rxLit)

lemma google_prefix: "rxTest secretPathPattern s \<Longrightarrow> \<exists>t. s = ''projects/'' @ t"
  unfolding secretPathPattern_def by (rule rxTest_rxSeq_rxLit)

lemma arn_prefix: "rxTest arnPattern s \<Longrightarrow> \<exists>t. s = ''arn:aws:secretsmanager:'' @ t"
  unfolding arnPattern_def by (rule rxTest_rxSeq_rxLit)

lemma parameter_prefix:
  "rxTest parameterPathPattern s \<Longrightarrow> (\<exists>t. s = ''/'' @ t) \<or> (\<exists>t. s = ''arn:'' @ t)"
  unfolding parameterPathPattern_def rxTest_rxAlt
  using rxTest_rxSeq_rxLit by blast

lemma parameter_rejects:
  "\<not> rxTest parameterPathPattern (''https://'' @ t)"
  "\<not> rxTest parameterPathPattern (''projects/'' @ t)"
  "\<not> rxTest parameterPathPattern (''arn:aws:secretsmanager:'' @ t)"
  by (simp_all add: parameterPathPattern_def rx_defs class_defs)

lemma arn_rejects:
  "\<not> rxTest arnPattern (''https://'' @ t)"
  "\<not> rxTest arnPattern (''projects/'' @ t)"
  by (simp_all add: arnPattern_def rx_defs)

lemma azure_rejects:
  "\<not> rxTest secretUrlPattern (''projects/'' @ t)"
  "\<not> rxTest secretUrlPattern (''arn:aws:secretsmanager:'' @ t)"
  by (simp_all add: secretUrlPattern_def rx_defs)

lemma google_rejects:
  "\<not> rxTest secretPathPattern (''https://'' @ t)"
  "\<not> rxTest secretPathPattern (''arn:aws:secretsmanager:'' @ t)"
  by (simp_all add: secretPathPattern_def rx_defs)

lemma arn_not_parameter: "rxTest arnPattern s \<Longrightarrow> \<not> rxTest parameterPathPattern s"
  using arn_prefix parameter_rejects(3) by blast

lemma slash_rejected:
  "\<not> rxTest arnPattern (''/'' @ t)"
  "\<not> rxTest secretUrlPattern (''/'' @ t)"
  "\<not> rxTest secretPathPattern (''/'' @ t)"
  by (simp_all add: pattern_defs rx_defs)

text \<open>
  C9. No string is a reference for two of the four providers: a string accepted by the
  Azure Key Vault pattern is rejected by the AWS Parameter Store, AWS Secrets Manager and
  Google patterns, and likewise from each of the other three; and a string that begins
  with none of \<open>/\<close>, \<open>arn:\<close>, \<open>https://\<close> and \<open>projects/\<close> is a reference for none.
\<close>

theorem provider_syntaxes_are_disjoint:
  "(isSecretReference (AzureKeyVaultProvider c1) s \<longrightarrow>
      \<not> isSecretReference (AwsParameterStoreProvider c2) s
      \<and> \<not> isSecretReference (AwsSecretsManagerProvider env c3) s
      \<and> \<not> isSecretReference (GoogleSecretManagerProvider env c4) s)
   \<and> (isSecretReference (AwsSecretsManagerProvider env c3) s \<longrightarrow>
      \<not> isSecretReference (AwsParameterStoreProvider c2) s
      \<and> \<not> isSecretReference (GoogleSecretManagerProvider env c4) s
      \<and> \<not> isSecretReference (AzureKeyVaultProvider c1) s)
   \<and> (isSecretReference (GoogleSecretManagerProvider env c4) s \<longrightarrow>
      \<not> isSecretReference (AwsParameterStoreProvider c2) s
      \<and> \<not> isSecretReference (AwsSecretsManagerProvider env c3) s
      \<and> \<not> isSecretReference (AzureKeyVaultProvider c1) s)
   \<and> (isSecretReference (AwsParameterStoreProvider c2) s \<longrightarrow>
      \<not> isSecretReference (AwsSecretsManagerProvider env c3) s
      \<and> \<not> isSecretReference (AzureKeyVaultProvider c1) s
      \<and> \<not> isSecretReference (GoogleSecretManagerProvider env c4) s)
   \<and> ((\<forall>t. s \<noteq> ''/'' @ t) \<and> (\<forall>t. s \<noteq> ''arn:'' @ t) \<and> (\<forall>t. s \<noteq> ''https://'' @ t)
        \<and> (\<forall>t. s \<noteq> ''projects/'' @ t) \<longrightarrow>
      \<not> isSecretReference (AwsParameterStoreProvider c2) s
      \<and> \<not> isSecretReference (AwsSecretsManagerProvider env c3) s
      \<and> \<not> isSecretReference (AzureKeyVaultProvider c1) s
      \<and> \<not> isSecretReference (GoogleSecretManagerProvider env c4) s)"
proof -
  have az: "rxTest secretUrlPattern s \<Longrightarrow>
      \<not> rxTest parameterPathPattern s \<and> \<not> rxTest arnPattern s \<and> \<not> rxTest secretPathPattern s"
    using azure_prefix [of s] parameter_rejects(1) arn_rejects(1) google_rejects(1) by blast
  have sm: "rxTest arnPattern s \<Longrightarrow>
      \<not> rxTest parameterPathPattern s \<and> \<not> rxTest secretPathPattern s \<and> \<not> rxTest secretUrlPattern s"
    using arn_prefix [of s] parameter_rejects(3) google_rejects(2) azure_rejects(2) by blast
  have go: "rxTest secretPathPattern s \<Longrightarrow>
      \<not> rxTest parameterPathPattern s \<and> \<not> rxTest arnPattern s \<and> \<not> rxTest secretUrlPattern s"
    using google_prefix [of s] parameter_rejects(2) arn_rejects(2) azure_rejects(1) by blast
  have ps: "rxTest parameterPathPattern s \<Longrightarrow>
      \<not> rxTest arnPattern s \<and> \<not> rxTest secretUrlPattern s \<and> \<not> rxTest secretPathPattern s"
    using az sm go by blast
  have no: "(\<forall>t. s \<noteq> ''/'' @ t) \<and> (\<forall>t. s \<noteq> ''arn:'' @ t) \<and> (\<forall>t. s \<noteq> ''https://'' @ t)
        \<and> (\<forall>t. s \<noteq> ''projects/'' @ t) \<Longrightarrow>
      \<not> rxTest parameterPathPattern s \<and> \<not> rxTest arnPattern s
      \<and> \<not> rxTest secretUrlPattern s \<and> \<not> rxTest secretPathPattern s"
  proof -
    assume a: "(\<forall>t. s \<noteq> ''/'' @ t) \<and> (\<forall>t. s \<noteq> ''arn:'' @ t) \<and> (\<forall>t. s \<noteq> ''https://'' @ t)
        \<and> (\<forall>t. s \<noteq> ''projects/'' @ t)"
    have "\<not> rxTest arnPattern s"
    proof
      assume "rxTest arnPattern s"
      then obtain t where "s = ''arn:aws:secretsmanager:'' @ t" using arn_prefix by blast
      then have "s = ''arn:'' @ (''aws:secretsmanager:'' @ t)" by simp
      with a show False by blast
    qed
    then show ?thesis
      using a parameter_prefix [of s] azure_prefix [of s] google_prefix [of s] by blast
  qed
  show ?thesis
    unfolding AzureKeyVaultProvider_def AwsParameterStoreProvider_def
      AwsSecretsManagerProvider_def GoogleSecretManagerProvider_def provider.select_convs
    using az sm go ps no by blast
qed

theorem provider_syntaxes_are_disjoint_witness:
  "isSecretReference (AzureKeyVaultProvider (bareClient ''SecretClient''))
      ''https://my-vault.vault.azure.net/secrets/my-secret''
   \<and> \<not> isSecretReference (AwsParameterStoreProvider (bareClient ''SSMClient''))
      ''https://my-vault.vault.azure.net/secrets/my-secret''
   \<and> isSecretReference
        (AwsSecretsManagerProvider (memoryNode [] [] []) (bareClient ''SecretsManager''))
      ''arn:aws:secretsmanager:us-east-1:123456789012:secret:my-secret''
   \<and> \<not> isSecretReference (AwsParameterStoreProvider (bareClient ''SSMClient''))
      ''arn:aws:secretsmanager:us-east-1:123456789012:secret:my-secret''
   \<and> isSecretReference
        (GoogleSecretManagerProvider (memoryNode [] [] []) (bareClient ''SecretManagerServiceClient''))
      ''projects/123/secrets/api-key/versions/latest''
   \<and> \<not> isSecretReference (AzureKeyVaultProvider (bareClient ''SecretClient''))
      ''projects/123/secrets/api-key/versions/latest''
   \<and> isSecretReference (AwsParameterStoreProvider (bareClient ''SSMClient''))
      ''/my-app/dev/db/password''
   \<and> \<not> isSecretReference (AzureKeyVaultProvider (bareClient ''SecretClient''))
      ''/my-app/dev/db/password''
   \<and> \<not> isSecretReference (AzureKeyVaultProvider (bareClient ''SecretClient'')) ''not-a-secret''"
proof -
  let ?az = "bareClient ''SecretClient''"
  let ?ps = "bareClient ''SSMClient''"
  let ?sm = "bareClient ''SecretsManager''"
  let ?go = "bareClient ''SecretManagerServiceClient''"
  let ?env = "memoryNode [] [] []"
  note inst = provider_syntaxes_are_disjoint [where ?c1.0 = ?az and ?c2.0 = ?ps and ?c3.0 = ?sm
      and ?c4.0 = ?go and env = ?env]
  have 1: "isSecretReference (AzureKeyVaultProvider ?az)
      ''https://my-vault.vault.azure.net/secrets/my-secret''"
    by (simp add: AzureKeyVaultProvider_def secretUrlPattern_def rx_defs class_defs)
  have 2: "isSecretReference (AwsSecretsManagerProvider ?env ?sm)
      ''arn:aws:secretsmanager:us-east-1:123456789012:secret:my-secret''"
    by (simp add: AwsSecretsManagerProvider_def arnPattern_def rx_defs class_defs)
  have 3: "isSecretReference (GoogleSecretManagerProvider ?env ?go)
      ''projects/123/secrets/api-key/versions/latest''"
    by (simp add: GoogleSecretManagerProvider_def secretPathPattern_def rx_defs class_defs)
  have 4: "isSecretReference (AwsParameterStoreProvider ?ps) ''/my-app/dev/db/password''"
    by (simp add: AwsParameterStoreProvider_def parameterPathPattern_def rx_defs class_defs)
  have 5: "(\<forall>t. ''not-a-secret'' \<noteq> ''/'' @ t) \<and> (\<forall>t. ''not-a-secret'' \<noteq> ''arn:'' @ t)
   \<and> (\<forall>t. ''not-a-secret'' \<noteq> ''https://'' @ t) \<and> (\<forall>t. ''not-a-secret'' \<noteq> ''projects/'' @ t)"
    by simp
  note a = inst [of "''https://my-vault.vault.azure.net/secrets/my-secret''", THEN conjunct1, THEN mp, OF 1]
  note b = inst [of "''arn:aws:secretsmanager:us-east-1:123456789012:secret:my-secret''",
      THEN conjunct2, THEN conjunct1, THEN mp, OF 2]
  note c = inst [of "''projects/123/secrets/api-key/versions/latest''",
      THEN conjunct2, THEN conjunct2, THEN conjunct1, THEN mp, OF 3]
  note d = inst [of "''/my-app/dev/db/password''",
      THEN conjunct2, THEN conjunct2, THEN conjunct2, THEN conjunct1, THEN mp, OF 4]
  note e = inst [of "''not-a-secret''",
      THEN conjunct2, THEN conjunct2, THEN conjunct2, THEN conjunct2, THEN mp, OF 5]
  show ?thesis
    by (intro conjI 1 2 3 4 a [THEN conjunct1] b [THEN conjunct1]
        c [THEN conjunct2, THEN conjunct2] d [THEN conjunct2, THEN conjunct1]
        e [THEN conjunct2, THEN conjunct2, THEN conjunct1])
qed


subsection \<open>AWS Parameter Store\<close>

lemma filter_parameterValue:
  "\<forall>param \<in> set params. \<exists>v. Value param = Some v \<and> v \<noteq> [] \<Longrightarrow>
   filter (\<lambda>v. v \<noteq> []) (map parameterValue params) = map (\<lambda>param. the (Value param)) params"
  by (induction params) (auto simp: parameterValue_def)

lemma filter_valueless:
  "\<forall>param \<in> set params. \<exists>v. Value param = Some v \<and> v \<noteq> [] \<Longrightarrow>
   filter (\<lambda>param. parameterValue param = []) params = []"
  by (induction params) (auto simp: parameterValue_def)

lemma map_Value:
  "\<forall>param \<in> set params. \<exists>v. Value param = Some v \<and> v \<noteq> [] \<Longrightarrow>
   map Value params = map (\<lambda>param. Some (the (Value param))) params"
  by (induction params) auto

lemma current_by_path:
  assumes "endsWith secretRef ''/*''"
    and "send c (GetParametersByPathCommand (take (length secretRef - 2) secretRef) True True)
          = Inr response"
  shows "parametersOf response = Some params \<and> params \<noteq> [] \<longrightarrow>
         parameterStoreResolveSecret c secretRef
           = (Inr (SecretArray (filter (\<lambda>v. v \<noteq> []) (map parameterValue params))),
              map parameterWarning (filter (\<lambda>param. parameterValue param = []) params))"
    and "parametersOf response = None \<or> parametersOf response = Some [] \<longrightarrow>
         fst (parameterStoreResolveSecret c secretRef)
           = Inl (Error (''No parameters found at path: ''
                @ take (length secretRef - 2) secretRef))"
    and "(\<exists>e. fst (parameterStoreResolveSecret c secretRef) = Inl e)
           \<longleftrightarrow> (parametersOf response = None \<or> parametersOf response = Some [])"
  using assms
  by (auto simp: parameterStoreResolveSecret_def retrieveParametersByPath_def Let_def
      split: option.splits if_splits)

lemma current_single:
  assumes "\<not> endsWith secretRef ''/*''"
    and "send c (GetParameterCommand secretRef True) = Inr response"
  shows "parameterOf response = Some param \<and> Value param = Some v \<and> v \<noteq> [] \<longrightarrow>
         parameterStoreResolveSecret c secretRef = (Inr (SecretText v), [])"
    and "parameterOf response = None \<longrightarrow>
         fst (parameterStoreResolveSecret c secretRef)
           = Inl (Error (''Parameter not found: '' @ secretRef))"
    and "parameterOf response = Some param \<and> (Value param = None \<or> Value param = Some []) \<longrightarrow>
         fst (parameterStoreResolveSecret c secretRef)
           = Inl (Error (''Parameter value is empty for: '' @ secretRef))"
  using assms
  by (auto simp: parameterStoreResolveSecret_def retrieveSingleParameter_def
      split: option.splits if_splits)

lemma earlier_by_path:
  assumes "endsWith secretRef ''/*''"
    and "getParametersByPath c (take (length secretRef - 2) secretRef) True True = Inr found"
  shows "found = Some params \<and> params \<noteq> [] \<longrightarrow>
         earlierResolveSecret c secretRef = (Inr (EarlierArray (map Value params)), [])"
    and "found = None \<or> found = Some [] \<longrightarrow>
         fst (earlierResolveSecret c secretRef)
           = Inl (Error (''No parameters found at path: ''
                @ take (length secretRef - 2) secretRef))"
    and "(\<exists>e. fst (earlierResolveSecret c secretRef) = Inl e)
           \<longleftrightarrow> (found = None \<or> found = Some [])"
  using assms
  by (auto simp: earlierResolveSecret_def earlierFailure_def Let_def
      split: option.splits if_splits)

lemma earlier_single:
  assumes "\<not> endsWith secretRef ''/*''"
    and "getParameter c secretRef True = Inr found"
  shows "found = Some param \<and> Value param = Some v \<and> v \<noteq> [] \<longrightarrow>
         earlierResolveSecret c secretRef = (Inr (EarlierText v), [])"
    and "found = None \<or> (found = Some param \<and> (Value param = None \<or> Value param = Some [])) \<longrightarrow>
         fst (earlierResolveSecret c secretRef) = Inl (Error ''Parameter value is empty'')"
  using assms
  by (auto simp: earlierResolveSecret_def earlierFailure_def
      split: option.splits if_splits)

text \<open>
  C7 (as amended). In both versions of the provider, what a reference ending in \<open>/*\<close>
  resolves to is decided by the backend's answer to one recursive, decrypting path lookup
  for the reference without its last two characters. The error
  \<open>No parameters found at path: ...\<close> is raised exactly when the answer has no parameter
  list or an empty one. When it has at least one parameter and each returned parameter
  has a non-empty value, the result is the array of exactly those values in the returned
  order, so three such parameters give their three values. For a returned parameter
  whose value is missing or empty the versions differ: the current one
  (\<open>retrieveParametersByPath\<close>) leaves it out of the array and logs the warning
  \<open>Parameter <name> has no value\<close> for it, so that the array holds the non-empty values in
  the returned order; the earlier one returns one entry for every returned parameter,
  its \<open>Value\<close> as returned. Any other reference is decided by the answer to one
  decrypting lookup of that name: the result is the parameter's value when that is
  present and not empty, and an error is raised when the answer has no parameter, or the
  parameter has no value or the empty one.
\<close>

theorem parameter_store_resolution:
  "(endsWith secretRef ''/*''
      \<and> send c (GetParametersByPathCommand (take (length secretRef - 2) secretRef) True True)
          = Inr response \<longrightarrow>
      (\<forall>params. parametersOf response = Some params \<and> params \<noteq> [] \<longrightarrow>
         parameterStoreResolveSecret c secretRef
           = (Inr (SecretArray (filter (\<lambda>v. v \<noteq> []) (map parameterValue params))),
              map parameterWarning (filter (\<lambda>param. parameterValue param = []) params))
         \<and> ((\<forall>param \<in> set params. \<exists>v. Value param = Some v \<and> v \<noteq> []) \<longrightarrow>
              parameterStoreResolveSecret c secretRef
                = (Inr (SecretArray (map (\<lambda>param. the (Value param)) params)), [])))
      \<and> ((parametersOf response = None \<or> parametersOf response = Some []) \<longrightarrow>
           fst (parameterStoreResolveSecret c secretRef)
             = Inl (Error (''No parameters found at path: ''
                  @ take (length secretRef - 2) secretRef)))
      \<and> ((\<exists>e. fst (parameterStoreResolveSecret c secretRef) = Inl e)
           \<longleftrightarrow> (parametersOf response = None \<or> parametersOf response = Some [])))
   \<and> (\<not> endsWith secretRef ''/*'' \<and> send c (GetParameterCommand secretRef True) = Inr response \<longrightarrow>
      (\<forall>param v. parameterOf response = Some param \<and> Value param = Some v \<and> v \<noteq> [] \<longrightarrow>
         parameterStoreResolveSecret c secretRef = (Inr (SecretText v), []))
      \<and> (parameterOf response = None \<longrightarrow>
           fst (parameterStoreResolveSecret c secretRef)
             = Inl (Error (''Parameter not found: '' @ secretRef)))
      \<and> (\<forall>param. parameterOf response = Some param
             \<and> (Value param = None \<or> Value param = Some []) \<longrightarrow>
           fst (parameterStoreResolveSecret c secretRef)
             = Inl (Error (''Parameter value is empty for: '' @ secretRef))))
   \<and> (endsWith secretRef ''/*''
      \<and> getParametersByPath c (take (length secretRef - 2) secretRef) True True = Inr found \<longrightarrow>
      (\<forall>params. found = Some params \<and> params \<noteq> [] \<longrightarrow>
         earlierResolveSecret c secretRef = (Inr (EarlierArray (map Value params)), [])
         \<and> ((\<forall>param \<in> set params. \<exists>v. Value param = Some v \<and> v \<noteq> []) \<longrightarrow>
              earlierResolveSecret c secretRef
                = (Inr (EarlierArray (map (\<lambda>param. Some (the (Value param))) params)), [])))
      \<and> ((found = None \<or> found = Some []) \<longrightarrow>
           fst (earlierResolveSecret c secretRef)
             = Inl (Error (''No parameters found at path: ''
                  @ take (length secretRef - 2) secretRef)))
      \<and> ((\<exists>e. fst (earlierResolveSecret c secretRef) = Inl e)
           \<longleftrightarrow> (found = None \<or> found = Some [])))
   \<and> (\<not> endsWith secretRef ''/*'' \<and> getParameter c secretRef True = Inr single \<longrightarrow>
      (\<forall>param v. single = Some param \<and> Value param = Some v \<and> v \<noteq> [] \<longrightarrow>
         earlierResolveSecret c secretRef = (Inr (EarlierText v), []))
      \<and> (\<forall>param. single = None
             \<or> (single = Some param \<and> (Value param = None \<or> Value param = Some [])) \<longrightarrow>
           fst (earlierResolveSecret c secretRef) = Inl (Error ''Parameter value is empty'')))"
proof (intro conjI impI allI)
  fix params
  assume a: "endsWith secretRef ''/*''
      \<and> send c (GetParametersByPathCommand (take (length secretRef - 2) secretRef) True True)
          = Inr response"
    and b: "parametersOf response = Some params \<and> params \<noteq> []"
  from a have a1: "endsWith secretRef ''/*''" and a2: "send c (GetParametersByPathCommand
      (take (length secretRef - 2) secretRef) True True) = Inr response" by simp_all
  from current_by_path(1) [OF a1 a2, of params] b
  show r: "parameterStoreResolveSecret c secretRef
           = (Inr (SecretArray (filter (\<lambda>v. v \<noteq> []) (map parameterValue params))),
              map parameterWarning (filter (\<lambda>param. parameterValue param = []) params))"
    by blast
  assume v: "\<forall>param \<in> set params. \<exists>v. Value param = Some v \<and> v \<noteq> []"
  show "parameterStoreResolveSecret c secretRef
                = (Inr (SecretArray (map (\<lambda>param. the (Value param)) params)), [])"
    using r filter_parameterValue [OF v] filter_valueless [OF v] by simp
next
  assume a: "endsWith secretRef ''/*''
      \<and> send c (GetParametersByPathCommand (take (length secretRef - 2) secretRef) True True)
          = Inr response"
    and b: "parametersOf response = None \<or> parametersOf response = Some []"
  from a have a1: "endsWith secretRef ''/*''" and a2: "send c (GetParametersByPathCommand
      (take (length secretRef - 2) secretRef) True True) = Inr response" by simp_all
  from current_by_path(2) [OF a1 a2] b
  show "fst (parameterStoreResolveSecret c secretRef)
             = Inl (Error (''No parameters found at path: ''
                  @ take (length secretRef - 2) secretRef))"
    by blast
next
  assume a: "endsWith secretRef ''/*''
      \<and> send c (GetParametersByPathCommand (take (length secretRef - 2) secretRef) True True)
          = Inr response"
  from a have a1: "endsWith secretRef ''/*''" and a2: "send c (GetParametersByPathCommand
      (take (length secretRef - 2) secretRef) True True) = Inr response" by simp_all
  from current_by_path(3) [OF a1 a2]
  show "(\<exists>e. fst (parameterStoreResolveSecret c secretRef) = Inl e)
           \<longleftrightarrow> (parametersOf response = None \<or> parametersOf response = Some [])" .
next
  fix param v
  assume a: "\<not> endsWith secretRef ''/*'' \<and> send c (GetParameterCommand secretRef True) = Inr response"
    and b: "parameterOf response = Some param \<and> Value param = Some v \<and> v \<noteq> []"
  from a have a1: "\<not> endsWith secretRef ''/*''"
    and a2: "send c (GetParameterCommand secretRef True) = Inr response" by simp_all
  from current_single(1) [OF a1 a2, of param v] b
  show "parameterStoreResolveSecret c secretRef = (Inr (SecretText v), [])" by blast
next
  assume a: "\<not> endsWith secretRef ''/*'' \<and> send c (GetParameterCommand secretRef True) = Inr response"
    and b: "parameterOf response = None"
  from a have a1: "\<not> endsWith secretRef ''/*''"
    and a2: "send c (GetParameterCommand secretRef True) = Inr response" by simp_all
  from current_single(2) [OF a1 a2] b
  show "fst (parameterStoreResolveSecret c secretRef)
             = Inl (Error (''Parameter not found: '' @ secretRef))" by blast
next
  fix param
  assume a: "\<not> endsWith secretRef ''/*'' \<and> send c (GetParameterCommand secretRef True) = Inr response"
    and b: "parameterOf response = Some param \<and> (Value param = None \<or> Value param = Some [])"
  from a have a1: "\<not> endsWith secretRef ''/*''"
    and a2: "send c (GetParameterCommand secretRef True) = Inr response" by simp_all
  from current_single(3) [OF a1 a2, of param] b
  show "fst (parameterStoreResolveSecret c secretRef)
             = Inl (Error (''Parameter value is empty for: '' @ secretRef))" by blast
next
  fix params
  assume a: "endsWith secretRef ''/*''
      \<and> getParametersByPath c (take (length secretRef - 2) secretRef) True True = Inr found"
    and b: "found = Some params \<and> params \<noteq> []"
  from a have a1: "endsWith secretRef ''/*''" and a2: "getParametersByPath c
      (take (length secretRef - 2) secretRef) True True = Inr found" by simp_all
  from earlier_by_path(1) [OF a1 a2, of params] b
  show r: "earlierResolveSecret c secretRef = (Inr (EarlierArray (map Value params)), [])"
    by blast
  assume v: "\<forall>param \<in> set params. \<exists>v. Value param = Some v \<and> v \<noteq> []"
  show "earlierResolveSecret c secretRef
                = (Inr (EarlierArray (map (\<lambda>param. Some (the (Value param))) params)), [])"
    using r map_Value [OF v] by simp
next
  assume a: "endsWith secretRef ''/*''
      \<and> getParametersByPath c (take (length secretRef - 2) secretRef) True True = Inr found"
    and b: "found = None \<or> found = Some []"
  from a have a1: "endsWith secretRef ''/*''" and a2: "getParametersByPath c
      (take (length secretRef - 2) secretRef) True True = Inr found" by simp_all
  from earlier_by_path(2) [OF a1 a2] b
  show "fst (earlierResolveSecret c secretRef)
             = Inl (Error (''No parameters found at path: ''
                  @ take (length secretRef - 2) secretRef))"
    by blast
next
  assume a: "endsWith secretRef ''/*''
      \<and> getParametersByPath c (take (length secretRef - 2) secretRef) True True = Inr found"
  from a have a1: "endsWith secretRef ''/*''" and a2: "getParametersByPath c
      (take (length secretRef - 2) secretRef) True True = Inr found" by simp_all
  from earlier_by_path(3) [OF a1 a2]
  show "(\<exists>e. fst (earlierResolveSecret c secretRef) = Inl e)
           \<longleftrightarrow> (found = None \<or> found = Some [])" .
next
  fix param v
  assume a: "\<not> endsWith secretRef ''/*'' \<and> getParameter c secretRef True = Inr single"
    and b: "single = Some param \<and> Value param = Some v \<and> v \<noteq> []"
  from a have a1: "\<not> endsWith secretRef ''/*''"
    and a2: "getParameter c secretRef True = Inr single" by simp_all
  from earlier_single(1) [OF a1 a2, of param v] b
  show "earlierResolveSecret c secretRef = (Inr (EarlierText v), [])" by blast
next
  fix param
  assume a: "\<not> endsWith secretRef ''/*'' \<and> getParameter c secretRef True = Inr single"
    and b: "single = None
             \<or> (single = Some param \<and> (Value param = None \<or> Value param = Some []))"
  from a have a1: "\<not> endsWith secretRef ''/*''"
    and a2: "getParameter c secretRef True = Inr single" by simp_all
  from earlier_single(2) [OF a1 a2, of param] b
  show "fst (earlierResolveSecret c secretRef) = Inl (Error ''Parameter value is empty'')"
    by blast
qed

theorem parameter_store_resolution_witness:
  "endsWith ''/my-app/dev/*'' ''/*''
   \<and> parameterStoreResolveSecret
        ((bareClient ''SSMClient'')
           \<lparr>send := (\<lambda>command. Inr (GetParametersByPathCommandOutput (Some
               [Parameter (Some ''/my-app/dev/db-host'') (Some ''db.example.com''),
                Parameter (Some ''/my-app/dev/db-password'') (Some ''secret-password''),
                Parameter (Some ''/my-app/dev/api-key'') (Some ''api-key-value'')])))\<rparr>)
        ''/my-app/dev/*''
     = (Inr (SecretArray [''db.example.com'', ''secret-password'', ''api-key-value'']), [])
   \<and> earlierResolveSecret
        ((bareClient ''SSM'')
           \<lparr>getParametersByPath := (\<lambda>path withDecryption recursive. Inr (Some
               [Parameter (Some ''/my-app/dev/db-host'') (Some ''db.example.com''),
                Parameter (Some ''/my-app/dev/db-password'') (Some ''secret-password''),
                Parameter (Some ''/my-app/dev/api-key'') (Some ''api-key-value'')]))\<rparr>)
        ''/my-app/dev/*''
     = (Inr (EarlierArray [Some ''db.example.com'', Some ''secret-password'',
          Some ''api-key-value'']), [])
   \<and> \<not> endsWith ''/my-app/dev/db-password'' ''/*''
   \<and> parameterStoreResolveSecret
        ((bareClient ''SSMClient'')
           \<lparr>send := (\<lambda>command. Inr (GetParameterCommandOutput (Some
               (Parameter (Some ''/my-app/dev/db-password'') (Some ''db-password-value'')))))\<rparr>)
        ''/my-app/dev/db-password''
     = (Inr (SecretText ''db-password-value''), [])
   \<and> earlierResolveSecret
        ((bareClient ''SSM'')
           \<lparr>getParameter := (\<lambda>name withDecryption. Inr (Some
               (Parameter (Some ''/my-app/dev/db-password'') (Some ''db-password-value''))))\<rparr>)
        ''/my-app/dev/db-password''
     = (Inr (EarlierText ''db-password-value''), [])"
proof -
  let ?ps = "[Parameter (Some ''/my-app/dev/db-host'') (Some ''db.example.com''),
                Parameter (Some ''/my-app/dev/db-password'') (Some ''secret-password''),
                Parameter (Some ''/my-app/dev/api-key'') (Some ''api-key-value'')]"
  let ?p = "Parameter (Some ''/my-app/dev/db-password'') (Some ''db-password-value'')"
  let ?c = "(bareClient ''SSMClient'')
           \<lparr>send := (\<lambda>command. Inr (GetParametersByPathCommandOutput (Some ?ps)))\<rparr>"
  let ?d = "(bareClient ''SSMClient'')
           \<lparr>send := (\<lambda>command. Inr (GetParameterCommandOutput (Some ?p)))\<rparr>"
  let ?c' = "(bareClient ''SSM'')
           \<lparr>getParametersByPath := (\<lambda>path withDecryption recursive. Inr (Some ?ps))\<rparr>"
  let ?d' = "(bareClient ''SSM'')
           \<lparr>getParameter := (\<lambda>name withDecryption. Inr (Some ?p))\<rparr>"
  have e1: "endsWith ''/my-app/dev/*'' ''/*''" by (simp add: endsWith_def)
  have e2: "\<not> endsWith ''/my-app/dev/db-password'' ''/*''" by (simp add: endsWith_def)
  have 1: "endsWith ''/my-app/dev/*'' ''/*''
      \<and> send ?c (GetParametersByPathCommand
            (take (length ''/my-app/dev/*'' - 2) ''/my-app/dev/*'') True True)
          = Inr (GetParametersByPathCommandOutput (Some ?ps))"
    using e1 by simp
  have 2: "\<not> endsWith ''/my-app/dev/db-password'' ''/*''
      \<and> send ?d (GetParameterCommand ''/my-app/dev/db-password'' True)
          = Inr (GetParameterCommandOutput (Some ?p))"
    using e2 by simp
  have 3: "endsWith ''/my-app/dev/*'' ''/*''
      \<and> getParametersByPath ?c' (take (length ''/my-app/dev/*'' - 2) ''/my-app/dev/*'') True True
          = Inr (Some ?ps)"
    using e1 by simp
  have 4: "\<not> endsWith ''/my-app/dev/db-password'' ''/*''
      \<and> getParameter ?d' ''/my-app/dev/db-password'' True = Inr (Some ?p)"
    using e2 by simp
  have q: "parametersOf (GetParametersByPathCommandOutput (Some ?ps)) = Some ?ps \<and> ?ps \<noteq> []"
    by simp
  have q': "Some ?ps = Some ?ps \<and> ?ps \<noteq> []" by simp
  have v: "\<forall>param \<in> set ?ps. \<exists>v. Value param = Some v \<and> v \<noteq> []"
    by simp
  have r: "parameterOf (GetParameterCommandOutput (Some ?p)) = Some ?p
      \<and> Value ?p = Some ''db-password-value'' \<and> ''db-password-value'' \<noteq> []"
    by simp
  have r': "Some ?p = Some ?p
      \<and> Value ?p = Some ''db-password-value'' \<and> ''db-password-value'' \<noteq> []"
    by simp
  note a = parameter_store_resolution [THEN conjunct1, THEN mp, OF 1, THEN conjunct1,
      THEN spec, THEN mp, OF q, THEN conjunct2, THEN mp, OF v]
  note b = parameter_store_resolution [THEN conjunct2, THEN conjunct1, THEN mp, OF 2,
      THEN conjunct1, THEN spec, THEN spec, THEN mp, OF r]
  note a' = parameter_store_resolution [THEN conjunct2, THEN conjunct2, THEN conjunct1,
      THEN mp, OF 3, THEN conjunct1, THEN spec, THEN mp, OF q', THEN conjunct2, THEN mp, OF v]
  note b' = parameter_store_resolution [THEN conjunct2, THEN conjunct2, THEN conjunct2,
      THEN mp, OF 4, THEN conjunct1, THEN spec, THEN spec, THEN mp, OF r']
  have a1: "parameterStoreResolveSecret ?c ''/my-app/dev/*''
      = (Inr (SecretArray [''db.example.com'', ''secret-password'', ''api-key-value'']), [])"
    using a by simp
  have a2: "earlierResolveSecret ?c' ''/my-app/dev/*''
      = (Inr (EarlierArray [Some ''db.example.com'', Some ''secret-password'',
          Some ''api-key-value'']), [])"
    using a' by simp
  from e1 a1 a2 e2 b b' show ?thesis by (intro conjI)
qed

theorem three_parameters_two_values_counterexample:
  "parameterStoreResolveSecret
     ((bareClient ''SSMClient'')
        \<lparr>send := (\<lambda>command. Inr (GetParametersByPathCommandOutput (Some
            [Parameter (Some ''/my-app/dev/db-host'') (Some ''db.example.com''),
             Parameter (Some ''/my-app/dev/db-password'') (Some ''''),
             Parameter (Some ''/my-app/dev/api-key'') (Some ''api-key-value'')])))\<rparr>)
     ''/my-app/dev/*''
   = (Inr (SecretArray [''db.example.com'', ''api-key-value'']),
      [(LogWarn, ''Parameter /my-app/dev/db-password has no value'')])
   \<and> earlierResolveSecret
     ((bareClient ''SSM'')
        \<lparr>getParametersByPath := (\<lambda>path withDecryption recursive. Inr (Some
            [Parameter (Some ''/my-app/dev/db-host'') (Some ''db.example.com''),
             Parameter (Some ''/my-app/dev/db-password'') (Some ''''),
             Parameter (Some ''/my-app/dev/api-key'') (Some ''api-key-value'')]))\<rparr>)
     ''/my-app/dev/*''
   = (Inr (EarlierArray [Some ''db.example.com'', Some '''', Some ''api-key-value'']), [])"
  by (simp add: parameterStoreResolveSecret_def retrieveParametersByPath_def endsWith_def
      parameterValue_def parameterWarning_def earlierResolveSecret_def)

subsection \<open>Choosing the provider\<close>





subsection \<open>Resolving secrets\<close>

lemma secretValue_not_object: "secretValue v \<noteq> JObj qs"
  by (cases v) simp_all

lemma resolveEntry_not_object:
  "fst (resolveEntry P fullPath (JStr s)) \<noteq> JObj qs"
  by (simp add: secretValue_not_object split: sum.splits)


lemma resolveEntry_object:
  "fst (resolveEntry P fullPath (JObj ps)) = JObj (fst (resolveSecrets P fullPath ps))"
  by (simp split: prod.splits)

lemma resolveEntry_other:
  "(\<forall>s. w \<noteq> JStr s) \<Longrightarrow> (\<forall>ps. w \<noteq> JObj ps) \<Longrightarrow> fst (resolveEntry P fullPath w) = w"
  by (cases w) auto

lemma keys_resolveSecrets: "map fst (fst (resolveSecrets P path config)) = map fst config"
  by (induction config) (auto split: prod.splits)

lemma map_of_resolveSecrets:
  "map_of (fst (resolveSecrets P path config)) k
     = map_option (\<lambda>w. fst (resolveEntry P (fullPathOf path k) w)) (map_of config k)"
  by (induction config) (auto split: prod.splits)

lemma lookupPath_resolveSecrets:
  "lookupPath (fst (resolveSecrets P path config)) ks
     = map_option (\<lambda>w. fst (resolveEntry P (foldl fullPathOf path ks) w)) (lookupPath config ks)"
proof (induction ks arbitrary: config path)
  case Nil
  then show ?case by simp
next
  case (Cons k ks)
  show ?case
  proof (cases ks)
    case Nil
    then show ?thesis by (simp add: map_of_resolveSecrets)
  next
    case (Cons k' ks')
    show ?thesis
    proof (cases "map_of config k")
      case None
      then show ?thesis using Cons by (simp add: map_of_resolveSecrets)
    next
      case (Some w)
      show ?thesis
      proof (cases w)
        case (JObj inner)
        then show ?thesis
          using Some Cons Cons.IH [of "fullPathOf path k" inner]
          by (simp add: map_of_resolveSecrets resolveEntry_object del: resolveEntry.simps)
      next
        case (JStr s)
        have "\<And>qs. fst (resolveEntry P (fullPathOf path k) (JStr s)) \<noteq> JObj qs"
          by (rule resolveEntry_not_object)
        then show ?thesis
          using Some Cons JStr
          by (simp add: map_of_resolveSecrets del: resolveEntry.simps split: jv.splits)
      qed (use Some Cons in \<open>simp_all add: map_of_resolveSecrets\<close>)
    qed
  qed
qed










text \<open>
  C4. \<open>resolveSecrets\<close> returns a tree with the same keys in the same order; every dotted
  key that led to an object leads to an object with the same keys in the same order, and a
  dotted key that led nowhere still leads nowhere; a string that the provider does not
  recognise as a reference is unchanged; a string that it recognises is replaced by a
  string or by an array of strings; every other value (null, booleans, numbers, arrays)
  is unchanged.
\<close>

theorem resolution_preserves_shape:
  "map fst (fst (resolveSecrets P path config)) = map fst config
   \<and> (\<forall>ks ps. lookupPath config ks = Some (JObj ps) \<longrightarrow>
        (\<exists>qs. lookupPath (fst (resolveSecrets P path config)) ks = Some (JObj qs)
           \<and> map fst qs = map fst ps))
   \<and> (\<forall>ks. lookupPath config ks = None \<longrightarrow>
        lookupPath (fst (resolveSecrets P path config)) ks = None)
   \<and> (\<forall>ks s. lookupPath config ks = Some (JStr s) \<and> \<not> isSecretReference P s \<longrightarrow>
        lookupPath (fst (resolveSecrets P path config)) ks = Some (JStr s))
   \<and> (\<forall>ks s. lookupPath config ks = Some (JStr s) \<and> isSecretReference P s \<longrightarrow>
        (\<exists>t. lookupPath (fst (resolveSecrets P path config)) ks = Some (JStr t))
        \<or> (\<exists>ts. lookupPath (fst (resolveSecrets P path config)) ks = Some (JArr (map JStr ts))))
   \<and> (\<forall>ks w. lookupPath config ks = Some w \<and> (\<forall>s. w \<noteq> JStr s) \<and> (\<forall>ps. w \<noteq> JObj ps) \<longrightarrow>
        lookupPath (fst (resolveSecrets P path config)) ks = Some w)"
proof (intro conjI allI impI)
  show "map fst (fst (resolveSecrets P path config)) = map fst config"
    by (rule keys_resolveSecrets)
next
  fix ks ps
  assume "lookupPath config ks = Some (JObj ps)"
  then show "\<exists>qs. lookupPath (fst (resolveSecrets P path config)) ks = Some (JObj qs)
           \<and> map fst qs = map fst ps"
    by (simp add: lookupPath_resolveSecrets resolveEntry_object keys_resolveSecrets
        del: resolveEntry.simps)
next
  fix ks
  assume "lookupPath config ks = None"
  then show "lookupPath (fst (resolveSecrets P path config)) ks = None"
    by (simp add: lookupPath_resolveSecrets)
next
  fix ks s
  assume "lookupPath config ks = Some (JStr s) \<and> \<not> isSecretReference P s"
  then show "lookupPath (fst (resolveSecrets P path config)) ks = Some (JStr s)"
    by (simp add: lookupPath_resolveSecrets)
next
  fix ks s
  assume a: "lookupPath config ks = Some (JStr s) \<and> isSecretReference P s"
  show "(\<exists>t. lookupPath (fst (resolveSecrets P path config)) ks = Some (JStr t))
        \<or> (\<exists>ts. lookupPath (fst (resolveSecrets P path config)) ks = Some (JArr (map JStr ts)))"
  proof (cases "resolveSecret P s")
    case (Inl e)
    then show ?thesis using a by (simp add: lookupPath_resolveSecrets)
  next
    case (Inr v)
    then show ?thesis using a by (cases v) (auto simp: lookupPath_resolveSecrets)
  qed
next
  fix ks w
  assume "lookupPath config ks = Some w \<and> (\<forall>s. w \<noteq> JStr s) \<and> (\<forall>ps. w \<noteq> JObj ps)"
  then show "lookupPath (fst (resolveSecrets P path config)) ks = Some w"
    by (simp add: lookupPath_resolveSecrets resolveEntry_other del: resolveEntry.simps)
qed

theorem resolution_preserves_shape_witness:
  "lookupPath [(''db'', JObj [(''hosts'', JStr ''/app/dev/*''), (''port'', JNum 5432)]),
                (''vault'', JStr ''https://my-vault.vault.azure.net/secrets/my-secret'')]
     [''vault'']
     = Some (JStr ''https://my-vault.vault.azure.net/secrets/my-secret'')
   \<and> \<not> isSecretReference
        (tableProvider [(''/app/dev/*'', Inr (SecretArray [''h1'', ''h2'']))])
        ''https://my-vault.vault.azure.net/secrets/my-secret''
   \<and> lookupPath
        (fst (resolveSecrets (tableProvider [(''/app/dev/*'', Inr (SecretArray [''h1'', ''h2'']))]) []
           [(''db'', JObj [(''hosts'', JStr ''/app/dev/*''), (''port'', JNum 5432)]),
            (''vault'', JStr ''https://my-vault.vault.azure.net/secrets/my-secret'')]))
        [''vault'']
     = Some (JStr ''https://my-vault.vault.azure.net/secrets/my-secret'')
   \<and> map fst
        (fst (resolveSecrets (tableProvider [(''/app/dev/*'', Inr (SecretArray [''h1'', ''h2'']))]) []
           [(''db'', JObj [(''hosts'', JStr ''/app/dev/*''), (''port'', JNum 5432)]),
            (''vault'', JStr ''https://my-vault.vault.azure.net/secrets/my-secret'')]))
     = [''db'', ''vault'']"
proof -
  let ?P = "tableProvider [(''/app/dev/*'', Inr (SecretArray [''h1'', ''h2'']))]"
  let ?config = "[(''db'', JObj [(''hosts'', JStr ''/app/dev/*''), (''port'', JNum 5432)]),
                (''vault'', JStr ''https://my-vault.vault.azure.net/secrets/my-secret'')]"
  have 1: "lookupPath ?config [''vault'']
      = Some (JStr ''https://my-vault.vault.azure.net/secrets/my-secret'')
      \<and> \<not> isSecretReference ?P ''https://my-vault.vault.azure.net/secrets/my-secret''"
    by (simp add: tableProvider_def)
  note s = resolution_preserves_shape [of ?P "[]" ?config]
  note a = s [THEN conjunct1]
  note b = s [THEN conjunct2, THEN conjunct2, THEN conjunct2, THEN conjunct1, THEN spec, THEN spec,
      THEN mp, OF 1]
  show ?thesis
    using 1 a b by simp
qed

end
